theory Spec2Isabelle
  imports Main "HOL-Library.AList"
begin

section \<open>The Gitpod extension: local companion lifecycle (extensions/gitpod/src/extension.ts)\<close>

text \<open>
  The extension keeps three kinds of records in \<^verbatim>\<open>context.globalState\<close>, a persisted
  key-value store: a lock per host under the key \<^verbatim>\<open>lock/AUTHORITY\<close>, the configuration of
  the running local app under \<^verbatim>\<open>config/AUTHORITY\<close> and its installation under
  \<^verbatim>\<open>installation/AUTHORITY\<close>. All functions of \<^verbatim>\<open>activate\<close> are closures over that store,
  the output channel and the counter \<^verbatim>\<open>lockCount\<close>; the model passes them as a state.
\<close>

subsection \<open>Data model\<close>

record LocalAppConfig =
  gitpodHost :: string
  configFile :: string
  apiPort :: nat
  pid :: nat
  logPath :: string

text \<open>The field \<^verbatim>\<open>value\<close> of the interface \<^verbatim>\<open>Lock\<close> is \<open>lock_value\<close> here.
  Times are milliseconds of \<^verbatim>\<open>performance.now()\<close>, as natural numbers.\<close>

record Lock =
  lock_value :: string
  deadline :: nat

record LocalAppInstallation =
  path :: string
  etag :: "string option"

text \<open>
  What a key of the store can hold: one of the three records, or a primitive that is no
  object (\<^verbatim>\<open>null\<close> is left out: the extension never writes it). An absent key reads as
  \<^verbatim>\<open>undefined\<close>, which is \<open>None\<close>.
\<close>

datatype jsval =
    JBool bool
  | JNum int
  | JStr string
  | JLock Lock
  | JConfig LocalAppConfig
  | JInst LocalAppInstallation

text \<open>The store keeps its keys in insertion order, as the object behind a Memento does.\<close>

type_synonym memento = "(string \<times> jsval) list"

definition memento_get :: "memento \<Rightarrow> string \<Rightarrow> jsval option" where
  "memento_get m k = map_of m k"

definition memento_update :: "string \<Rightarrow> jsval option \<Rightarrow> memento \<Rightarrow> memento" where
  "memento_update k v m = (case v of None \<Rightarrow> AList.delete k m | Some x \<Rightarrow> AList.update k x m)"

definition memento_keys :: "memento \<Rightarrow> string list" where
  "memento_keys m = map fst m"

text \<open>\<^verbatim>\<open>typeof v === 'object'\<close>, truthiness, and the reads of the fields \<^verbatim>\<open>value\<close> and
  \<^verbatim>\<open>deadline\<close> on whatever the store returned (\<^verbatim>\<open>undefined\<close> where the field is missing).\<close>

fun typeof_object :: "jsval option \<Rightarrow> bool" where
  "typeof_object None = False"
| "typeof_object (Some (JBool b)) = False"
| "typeof_object (Some (JNum n)) = False"
| "typeof_object (Some (JStr s)) = False"
| "typeof_object (Some (JLock l)) = True"
| "typeof_object (Some (JConfig c)) = True"
| "typeof_object (Some (JInst i)) = True"

fun truthy :: "jsval option \<Rightarrow> bool" where
  "truthy None = False"
| "truthy (Some (JBool b)) = b"
| "truthy (Some (JNum n)) = (n \<noteq> 0)"
| "truthy (Some (JStr s)) = (s \<noteq> [])"
| "truthy (Some (JLock l)) = True"
| "truthy (Some (JConfig c)) = True"
| "truthy (Some (JInst i)) = True"

fun value_of :: "jsval option \<Rightarrow> string option" where
  "value_of (Some (JLock l)) = Some (lock_value l)"
| "value_of v = None"

fun deadline_of :: "jsval option \<Rightarrow> nat option" where
  "deadline_of (Some (JLock l)) = Some (deadline l)"
| "deadline_of v = None"

text \<open>The typed reads \<^verbatim>\<open>get<LocalAppConfig>\<close> and \<^verbatim>\<open>get<LocalAppInstallation>\<close>: the keys
  \<^verbatim>\<open>config/...\<close> and \<^verbatim>\<open>installation/...\<close> hold what \<^verbatim>\<open>ensureLocalApp\<close> wrote or nothing.\<close>

fun as_config :: "jsval option \<Rightarrow> LocalAppConfig option" where
  "as_config (Some (JConfig c)) = Some c"
| "as_config v = None"

fun as_installation :: "jsval option \<Rightarrow> LocalAppInstallation option" where
  "as_installation (Some (JInst i)) = Some i"
| "as_installation v = None"

text \<open>Errors are values: the message and, for errors of the gRPC client, the status code
  (\<^verbatim>\<open>grpc.Code\<close> of @improbable-eng/grpc-web).\<close>

datatype Code =
    OK | Canceled | Unknown | InvalidArgument | DeadlineExceeded | NotFound | AlreadyExists
  | PermissionDenied | ResourceExhausted | FailedPrecondition | Aborted | OutOfRange
  | Unimplemented | Internal | Unavailable | DataLoss | Unauthenticated

datatype js_error = JsError (message: string) (code: "Code option")

text \<open>The lines of the output channel, one constructor per \<^verbatim>\<open>output.appendLine\<close> site.\<close>

datatype line =
    CancelStaleLock string
  | AcquiringLock string
  | AcquiredLock string
  | ReleasedLock string
  | Fetching string
  | InstallingTo string
  | Installed LocalAppInstallation
  | FailedToInstall js_error
  | Starting string string nat
  | Started nat string
  | FailedToStart js_error
  | Outdated LocalAppInstallation string
  | FailedToKill nat js_error
  | ApiNotReady nat js_error
  | RetryingAfterDelay
  | FailedToAccess js_error
  | NotRunning nat js_error
  | Restarting

text \<open>What the extension does to the world outside the store, in order.\<close>

datatype effect =
    Fetch string
  | TmpFile
  | StreamTo string
  | Chmod string
  | Access string
  | Kill nat
  | Probe nat
  | Spawn string
  | Call LocalAppConfig

text \<open>
  The state of the extension: the store, the counter \<^verbatim>\<open>lockCount\<close>, the output channel (\<open>channel\<close>), the
  effects so far, the clock, the number of suspensions so far (\<open>tick\<close>), and the timer and
  cancellation token of the lock that is held (\<^verbatim>\<open>timer\<close> and \<^verbatim>\<open>tokenSource\<close> of \<^verbatim>\<open>withLock\<close>;
  the calls of \<^verbatim>\<open>withLock\<close> in one flow of control never nest).
\<close>

record state =
  globalState :: memento
  lockCount :: nat
  channel :: "line list"
  effects :: "effect list"
  clock :: nat
  tick :: nat
  timer :: "(string \<times> string) option"
  cancelled :: bool

definition appendLine :: "line \<Rightarrow> state \<Rightarrow> state" where
  "appendLine l s = s\<lparr>channel := channel s @ [l]\<rparr>"

definition perform :: "effect \<Rightarrow> state \<Rightarrow> state" where
  "perform e s = s\<lparr>effects := effects s @ [e]\<rparr>"

definition update :: "string \<Rightarrow> jsval option \<Rightarrow> state \<Rightarrow> state" where
  "update k v s = s\<lparr>globalState := memento_update k v (globalState s)\<rparr>"

subsection \<open>The stale-lock sweep\<close>

definition lockPrefix :: string where
  "lockPrefix = ''lock/''"

definition fastLockTimeout :: nat where
  "fastLockTimeout = 30000"

definition slowLockTimeout :: nat where
  "slowLockTimeout = 300000"

definition startsWith :: "string \<Rightarrow> string \<Rightarrow> bool" where
  "startsWith s p = (take (length p) s = p)"

text \<open>The test of line 65: \<^verbatim>\<open>typeof lock !== 'object' || performance.now() >= lock.deadline\<close>.
  A comparison with a missing deadline (\<^verbatim>\<open>undefined\<close>) is false.\<close>

definition stale :: "nat \<Rightarrow> jsval option \<Rightarrow> bool" where
  "stale now lock =
     (\<not> typeof_object lock \<or> (case deadline_of lock of None \<Rightarrow> False | Some d \<Rightarrow> now \<ge> d))"

definition releaseStaleLocks_key :: "state \<Rightarrow> string \<Rightarrow> state" where
  "releaseStaleLocks_key s key =
     (if startsWith key lockPrefix then
        (let lock = memento_get (globalState s) key in
         if stale (clock s) lock then
           (let lockName = drop (length lockPrefix) key
            in update key None (appendLine (CancelStaleLock lockName) s))
         else s)
      else s)"

definition releaseStaleLocks :: "state \<Rightarrow> state" where
  "releaseStaleLocks s = foldl releaseStaleLocks_key s (memento_keys (globalState s))"

text \<open>\<^verbatim>\<open>setInterval(() => releaseStaleLocks(), fastLockTimeout)\<close>: the period of the sweep.\<close>

definition releaseStaleLocksTimer_interval :: nat where
  "releaseStaleLocksTimer_interval = fastLockTimeout"

subsection \<open>The world outside\<close>

text \<open>The response of \<^verbatim>\<open>fetch\<close> (node-fetch), as far as the extension reads it.\<close>

record Response =
  resp_ok :: bool
  resp_status :: nat
  resp_statusText :: string
  resp_etag :: "string option"
  resp_url :: string

text \<open>How the promise of lines 182 to 215 settles: the log stream fails before it opens,
  or the process is spawned and then reports an error, exits, or is seen alive.\<close>

datatype spawn_outcome = LogStreamFailed js_error | Spawned "js_error + nat"

text \<open>
  Everything the extension asks of its environment is an oracle, indexed by the number of
  suspensions so far where the answer may change over time: what other flows and windows do
  to the store while this flow is suspended (\<open>interfere\<close>), how much longer than asked a
  suspension takes (\<open>elapse\<close>), whether the 150 ms timer of a held lock ran during it
  (\<open>timer_fires\<close>), and the outcomes of the network, the file system and the processes.
  \<open>uri_authority\<close> and \<open>uri_with_path\<close> stand for \<^verbatim>\<open>vscode.Uri.parse(h).authority\<close> and
  \<^verbatim>\<open>vscode.Uri.parse(h).with({ path }).toString()\<close>.
\<close>

record env =
  sessionId :: string
  platform :: string
  uri_authority :: "string \<Rightarrow> string"
  uri_with_path :: "string \<Rightarrow> string \<Rightarrow> string"
  interfere :: "nat \<Rightarrow> memento \<Rightarrow> memento"
  elapse :: "nat \<Rightarrow> nat"
  timer_fires :: "nat \<Rightarrow> bool"
  fetch_result :: "nat \<Rightarrow> string \<Rightarrow> js_error + Response"
  tmp_file :: "nat \<Rightarrow> js_error + string"
  pipeline :: "nat \<Rightarrow> string \<Rightarrow> js_error option"
  chmod :: "nat \<Rightarrow> string \<Rightarrow> js_error option"
  access :: "nat \<Rightarrow> string \<Rightarrow> js_error option"
  kill :: "nat \<Rightarrow> nat \<Rightarrow> js_error option"
  kill0 :: "nat \<Rightarrow> nat \<Rightarrow> js_error option"
  start_files :: "nat \<Rightarrow> js_error + (string \<times> nat)"
  spawn :: "nat \<Rightarrow> string \<Rightarrow> spawn_outcome"

text \<open>
  An \<^verbatim>\<open>await\<close> that takes at least \<open>d\<close> ms. While the flow is suspended the others act on
  the store, time passes, and the timer of lines 93 to 98 may run: it cancels the token
  when the lock in the store no longer carries the holder's value.
\<close>

definition await :: "env \<Rightarrow> nat \<Rightarrow> state \<Rightarrow> state" where
  "await E d s =
     (let t = tick s;
          g = interfere E t (globalState s);
          c = (case timer s of
                 None \<Rightarrow> cancelled s
               | Some (k, v) \<Rightarrow>
                   cancelled s \<or> (timer_fires E t \<and> value_of (memento_get g k) \<noteq> Some v))
      in s\<lparr>globalState := g, clock := clock s + d + elapse E t, tick := t + 1, cancelled := c\<rparr>)"

definition throwIfCancelled :: "state \<Rightarrow> js_error option" where
  "throwIfCancelled s = (if cancelled s then Some (JsError ''cancelled'' None) else None)"

text \<open>A number in a string concatenation: its decimal digits.\<close>

definition digit :: "nat \<Rightarrow> char" where
  "digit n = ''0123456789'' ! n"

fun show_nat :: "nat \<Rightarrow> string" where
  "show_nat n = (if n < 10 then [digit n] else show_nat (n div 10) @ [digit (n mod 10)])"

declare show_nat.simps [simp del]

subsection \<open>withLock\<close>

definition updateTimeout :: nat where
  "updateTimeout = 150"

text \<open>
  One pass through the body of the loop of lines 81 to 90: read the lock; when the key
  holds nothing (or something falsy) write the own lock and wait for the store; wait 150 ms.
\<close>

definition acquire_poll :: "env \<Rightarrow> string \<Rightarrow> string \<Rightarrow> nat \<Rightarrow> state \<Rightarrow> state" where
  "acquire_poll E lockKey v timeout s =
     (let currentLock = memento_get (globalState s) lockKey;
          s1 = (if \<not> truthy currentLock then
                  (let d = clock s + timeout + updateTimeout * 2
                   in await E 0 (update lockKey (Some (JLock \<lparr>lock_value = v, deadline = d\<rparr>)) s))
                else s)
      in await E updateTimeout s1)"

text \<open>
  The loop itself. \<^verbatim>\<open>currentLock\<close> is \<^verbatim>\<open>undefined\<close> before the first test, so the body runs
  at least once, and the test is on the lock read last, at line 89. The first argument
  bounds the number of polls: \<open>None\<close> is a caller still waiting after that many.
\<close>

fun acquire :: "nat \<Rightarrow> env \<Rightarrow> string \<Rightarrow> string \<Rightarrow> nat \<Rightarrow> state \<Rightarrow> state option" where
  "acquire 0 E lockKey v timeout s = None"
| "acquire (Suc n) E lockKey v timeout s =
     (let s2 = acquire_poll E lockKey v timeout s;
          currentLock = memento_get (globalState s2) lockKey
      in if value_of currentLock = Some v then Some s2
         else acquire n E lockKey v timeout s2)"

definition withLock ::
  "nat \<Rightarrow> env \<Rightarrow> string \<Rightarrow> (state \<Rightarrow> (js_error + 'a) \<times> state) \<Rightarrow> nat \<Rightarrow> state
     \<Rightarrow> ((js_error + 'a) \<times> state) option" where
  "withLock polls E lockName op timeout s =
     (let s0 = appendLine (AcquiringLock lockName) s;
          lockKey = lockPrefix @ lockName;
          v = sessionId E @ ''/'' @ show_nat (lockCount s0);
          s1 = s0\<lparr>lockCount := lockCount s0 + 1\<rparr>
      in case acquire polls E lockKey v timeout s1 of
           None \<Rightarrow> None
         | Some s2 \<Rightarrow>
             (let s3 = (appendLine (AcquiredLock lockName) s2)
                          \<lparr>timer := Some (lockKey, v), cancelled := False\<rparr>;
                  (result, s4) = op s3;
                  s5 = appendLine (ReleasedLock lockName) (s4\<lparr>timer := None\<rparr>);
                  s6 = await E 0 (update lockKey None s5)
              in Some (result, s6)))"

subsection \<open>Download, install, start\<close>

text \<open>Lines 115 to 128: the address of the download for the platform.\<close>

definition downloadUri :: "env \<Rightarrow> string \<Rightarrow> string" where
  "downloadUri E host =
     (if platform E = ''win32'' then
        uri_with_path E host ''/static/bin/gitpod-local-companion-windows.exe''
      else if platform E = ''darwin'' then
        uri_with_path E host ''/static/bin/gitpod-local-companion-darwin''
      else uri_with_path E host ''/static/bin/gitpod-local-companion-linux'')"

text \<open>\<^verbatim>\<open>downloadLocalApp\<close> returns the promise of \<^verbatim>\<open>fetch\<close>: how it will settle, and the
  state in which the request is on its way. The caller awaits it.\<close>

definition downloadLocalApp :: "env \<Rightarrow> string \<Rightarrow> state \<Rightarrow> (js_error + Response) \<times> state" where
  "downloadLocalApp E host s =
     (let s1 = appendLine (Fetching (downloadUri E host)) s
      in (fetch_result E (tick s1) (downloadUri E host), perform (Fetch (downloadUri E host)) s1))"

definition installLocalApp_try ::
  "env \<Rightarrow> Response \<Rightarrow> state \<Rightarrow> (js_error + LocalAppInstallation) \<times> state" where
  "installLocalApp_try E download s =
     (let s1 = await E 0 (perform TmpFile s) in
      case tmp_file E (tick s) of
        Inl err \<Rightarrow> (Inl err, s1)
      | Inr installationPath \<Rightarrow>
          (case throwIfCancelled s1 of Some e \<Rightarrow> (Inl e, s1) | None \<Rightarrow>
           let s2 = appendLine (InstallingTo installationPath) s1 in
           case throwIfCancelled s2 of Some e \<Rightarrow> (Inl e, s2) | None \<Rightarrow>
           let s3 = await E 0 (perform (StreamTo installationPath) s2) in
           case pipeline E (tick s2) installationPath of Some e \<Rightarrow> (Inl e, s3) | None \<Rightarrow>
           case throwIfCancelled s3 of Some e \<Rightarrow> (Inl e, s3) | None \<Rightarrow>
           let (failed, s5) =
                 (if platform E \<noteq> ''win32'' then
                    (let s4 = await E 0 (perform (Chmod installationPath) s3) in
                     case chmod E (tick s3) installationPath of
                       Some e \<Rightarrow> (Some e, s4)
                     | None \<Rightarrow> (throwIfCancelled s4, s4))
                  else (None, s3)) in
           case failed of Some e \<Rightarrow> (Inl e, s5) | None \<Rightarrow>
           let installation = \<lparr>path = installationPath, etag = resp_etag download\<rparr>
           in (Inr installation, appendLine (Installed installation) s5)))"

definition installLocalApp ::
  "env \<Rightarrow> Response \<Rightarrow> state \<Rightarrow> (js_error + LocalAppInstallation) \<times> state" where
  "installLocalApp E download s =
     (case installLocalApp_try E download s of
        (Inl e, s1) \<Rightarrow> (Inl e, appendLine (FailedToInstall e) s1)
      | (Inr installation, s1) \<Rightarrow> (Inr installation, s1))"

text \<open>
  \<^verbatim>\<open>startLocalApp\<close>: a temporary file and a free port, then the log stream and the process.
  When the token is cancelled as the log stream opens the promise is rejected, and the
  process is spawned all the same (line 187 does not return).
\<close>

definition startLocalApp_try ::
  "env \<Rightarrow> string \<Rightarrow> LocalAppInstallation \<Rightarrow> state \<Rightarrow> (js_error + LocalAppConfig) \<times> state" where
  "startLocalApp_try E host installation s =
     (let s1 = await E 0 (perform TmpFile s) in
      case start_files E (tick s) of
        Inl err \<Rightarrow> (Inl err, s1)
      | Inr (cfgFile, port) \<Rightarrow>
          (case throwIfCancelled s1 of Some e \<Rightarrow> (Inl e, s1) | None \<Rightarrow>
           let s2 = appendLine (Starting host cfgFile port) s1;
               lp = path installation @ ''.log'';
               s3 = await E 0 s2 in
           case spawn E (tick s2) (path installation) of
             LogStreamFailed e \<Rightarrow> (Inl e, s3)
           | Spawned r \<Rightarrow>
               (let s4 = await E 0 (perform (Spawn (path installation)) s3) in
                case (if cancelled s3 then Inl (JsError ''cancelled'' None) else r) of
                  Inl e \<Rightarrow> (Inl e, s4)
                | Inr p \<Rightarrow>
                    (Inr \<lparr>gitpodHost = host, configFile = cfgFile, apiPort = port, pid = p,
                          logPath = lp\<rparr>,
                     appendLine (Started p lp) s4))))"

definition startLocalApp ::
  "env \<Rightarrow> string \<Rightarrow> LocalAppInstallation \<Rightarrow> state \<Rightarrow> (js_error + LocalAppConfig) \<times> state" where
  "startLocalApp E host installation s =
     (case startLocalApp_try E host installation s of
        (Inl e, s1) \<Rightarrow> (Inl e, appendLine (FailedToStart e) s1)
      | (Inr config, s1) \<Rightarrow> (Inr config, s1))"

subsection \<open>ensureLocalApp\<close>

text \<open>Lines 232 to 241: the outcome of the download is kept as a value. The test of the
  token stands inside the \<^verbatim>\<open>try\<close>, so a cancellation there is kept as a failed download too.\<close>

definition ensureLocalApp_download ::
  "env \<Rightarrow> string \<Rightarrow> state \<Rightarrow> (js_error + Response) \<times> state" where
  "ensureLocalApp_download E host s =
     (let (fetched, s0) = downloadLocalApp E host s;
          s1 = await E 0 s0
      in case fetched of
           Inl e \<Rightarrow> (Inl e, s1)
         | Inr r \<Rightarrow>
             (case throwIfCancelled s1 of
                Some e \<Rightarrow> (Inl e, s1)
              | None \<Rightarrow>
                  if \<not> resp_ok r then
                    (Inl (JsError (''unexpected download response '' @ resp_statusText r
                                     @ '' ('' @ show_nat (resp_status r) @ '')'') None), s1)
                  else (Inr r, s1)))"

text \<open>Lines 244 to 258. \<^verbatim>\<open>upgrade.etag\<close> is tested for truthiness: a missing header and an
  empty one both count as no tag.\<close>

definition ensureLocalApp_upgrade ::
  "env \<Rightarrow> js_error + Response \<Rightarrow> LocalAppConfig option \<Rightarrow> LocalAppInstallation option \<Rightarrow> state
     \<Rightarrow> LocalAppConfig option \<times> LocalAppInstallation option \<times> state" where
  "ensureLocalApp_upgrade E download config installation s =
     (case installation of
        None \<Rightarrow> (config, installation, s)
      | Some inst \<Rightarrow>
          (case download of
             Inl e \<Rightarrow> (config, installation, s)
           | Inr r \<Rightarrow>
               if resp_etag r \<noteq> None \<and> resp_etag r \<noteq> Some [] \<and> resp_etag r \<noteq> etag inst then
                 (let s1 = appendLine (Outdated inst (resp_url r)) s;
                      s2 = (case config of
                              None \<Rightarrow> s1
                            | Some c \<Rightarrow>
                                (case kill E (tick s1) (pid c) of
                                   None \<Rightarrow> perform (Kill (pid c)) s1
                                 | Some e \<Rightarrow>
                                     appendLine (FailedToKill (pid c) e)
                                       (perform (Kill (pid c)) s1)))
                  in (None, None, s2))
               else (config, installation, s)))"

text \<open>Lines 262 to 269: an installation that cannot be executed, or a cancellation at this
  point, drops the installation.\<close>

definition ensureLocalApp_check ::
  "env \<Rightarrow> LocalAppInstallation option \<Rightarrow> state \<Rightarrow> LocalAppInstallation option \<times> state" where
  "ensureLocalApp_check E installation s =
     (case installation of
        None \<Rightarrow> (None, s)
      | Some inst \<Rightarrow>
          (let s1 = await E 0 (perform (Access (path inst)) s) in
           case access E (tick s) (path inst) of
             Some e \<Rightarrow> (None, s1)
           | None \<Rightarrow>
               (case throwIfCancelled s1 of Some e \<Rightarrow> (None, s1) | None \<Rightarrow> (Some inst, s1))))"

text \<open>Lines 270 to 277.\<close>

definition ensureLocalApp_install ::
  "env \<Rightarrow> js_error + Response \<Rightarrow> string \<Rightarrow> LocalAppInstallation option \<Rightarrow> state
     \<Rightarrow> (js_error + LocalAppInstallation) \<times> state" where
  "ensureLocalApp_install E download installationKey installation s =
     (case installation of
        Some inst \<Rightarrow> (Inr inst, s)
      | None \<Rightarrow>
          (case download of
             Inl e \<Rightarrow> (Inl e, s)
           | Inr r \<Rightarrow>
               (case installLocalApp E r s of
                  (Inl e, s1) \<Rightarrow> (Inl e, s1)
                | (Inr inst, s1) \<Rightarrow>
                    (let s2 = await E 0 (update installationKey (Some (JInst inst)) s1) in
                     case throwIfCancelled s2 of
                       Some e \<Rightarrow> (Inl e, s2)
                     | None \<Rightarrow> (Inr inst, s2)))))"

text \<open>Lines 278 to 281.\<close>

definition ensureLocalApp_start ::
  "env \<Rightarrow> string \<Rightarrow> string \<Rightarrow> LocalAppInstallation \<Rightarrow> state
     \<Rightarrow> (js_error + LocalAppConfig) \<times> state" where
  "ensureLocalApp_start E host configKey installation s =
     (case startLocalApp E host installation s of
        (Inl e, s1) \<Rightarrow> (Inl e, s1)
      | (Inr config, s1) \<Rightarrow>
          (let s2 = await E 0 (update configKey (Some (JConfig config)) s1) in
           case throwIfCancelled s2 of
             Some e \<Rightarrow> (Inl e, s2)
           | None \<Rightarrow> (Inr config, s2)))"

definition ensureLocalApp ::
  "env \<Rightarrow> string \<Rightarrow> string \<Rightarrow> string \<Rightarrow> state \<Rightarrow> (js_error + LocalAppConfig) \<times> state" where
  "ensureLocalApp E host configKey installationKey s =
     (let (download, s1) = ensureLocalApp_download E host s;
          config = as_config (memento_get (globalState s1) configKey);
          installation = as_installation (memento_get (globalState s1) installationKey);
          (config, installation, s2) = ensureLocalApp_upgrade E download config installation s1
      in case config of
           Some c \<Rightarrow> (Inr c, s2)
         | None \<Rightarrow>
             (let (installation, s3) = ensureLocalApp_check E installation s2 in
              case ensureLocalApp_install E download installationKey installation s3 of
                (Inl e, s4) \<Rightarrow> (Inl e, s4)
              | (Inr inst, s4) \<Rightarrow> ensureLocalApp_start E host configKey inst s4))"

subsection \<open>withLocalApp\<close>

text \<open>The operation of lines 317 to 321. \<^verbatim>\<open>JSON.stringify\<close> is one-to-one on what the store
  holds, so the comparison of the two strings is the comparison of the two values; an
  absent key gives \<^verbatim>\<open>undefined\<close>, which equals no string.\<close>

definition clearConfig ::
  "env \<Rightarrow> string \<Rightarrow> LocalAppConfig \<Rightarrow> state \<Rightarrow> (js_error + unit) \<times> state" where
  "clearConfig E configKey config s =
     (if memento_get (globalState s) configKey = Some (JConfig config) then
        (Inr (), await E 0 (update configKey None s))
      else (Inr (), s))"

text \<open>
  The loop of lines 289 to 325. The operation is an oracle of the environment too: its
  outcome depends on when it is called and on the config it is given. The first argument
  bounds the number of passes through the loop and the second the polls of each
  \<^verbatim>\<open>withLock\<close>; the result carries the final value of \<^verbatim>\<open>restartAttempts\<close>.
\<close>

fun withLocalApp_loop ::
  "nat \<Rightarrow> nat \<Rightarrow> env \<Rightarrow> (nat \<Rightarrow> LocalAppConfig \<Rightarrow> js_error + 'a) \<Rightarrow> string \<Rightarrow> nat \<Rightarrow> state
     \<Rightarrow> ((js_error + 'a) \<times> nat \<times> state) option" where
  "withLocalApp_loop 0 polls E op host restartAttempts s = None"
| "withLocalApp_loop (Suc n) polls E op host restartAttempts s =
     (let gitpodAuthority = uri_authority E host;
          configKey = ''config/'' @ gitpodAuthority;
          installationKey = ''installation/'' @ gitpodAuthority
      in if \<not> restartAttempts < 5 then
           Some (Inl (JsError ''failed to access the local app'' None), restartAttempts, s)
         else
           (case withLock polls E gitpodAuthority
                   (ensureLocalApp E host configKey installationKey) slowLockTimeout s of
              None \<Rightarrow> None
            | Some (Inl e, s1) \<Rightarrow> Some (Inl e, restartAttempts, s1)
            | Some (Inr config, s1) \<Rightarrow>
                (let s2 = await E 0 (perform (Call config) s1) in
                 case op (tick s1) config of
                   Inr result \<Rightarrow> Some (Inr result, restartAttempts, s2)
                 | Inl e \<Rightarrow>
                     (let running = kill0 E (tick s2) (pid config);
                          s3 = perform (Probe (pid config)) s2
                      in if running = None \<and> (code e = Some Unavailable \<or> code e = Some Unknown)
                         then
                           (let s4 = appendLine RetryingAfterDelay
                                       (appendLine (ApiNotReady (pid config) e) s3)
                            in withLocalApp_loop n polls E op host restartAttempts
                                 (await E 1000 s4))
                         else
                           (case running of
                              None \<Rightarrow> Some (Inl e, restartAttempts, s3)
                            | Some e2 \<Rightarrow>
                                (let s4 = appendLine Restarting
                                            (appendLine (NotRunning (pid config) e2)
                                              (appendLine (FailedToAccess e) s3))
                                 in case withLock polls E gitpodAuthority
                                           (clearConfig E configKey config) fastLockTimeout s4 of
                                      None \<Rightarrow> None
                                    | Some (Inl e3, s5) \<Rightarrow> Some (Inl e3, restartAttempts, s5)
                                    | Some (Inr u, s5) \<Rightarrow>
                                        withLocalApp_loop n polls E op host
                                          (restartAttempts + 1) s5))))))"

definition withLocalApp ::
  "nat \<Rightarrow> nat \<Rightarrow> env \<Rightarrow> (nat \<Rightarrow> LocalAppConfig \<Rightarrow> js_error + 'a) \<Rightarrow> string \<Rightarrow> state
     \<Rightarrow> ((js_error + 'a) \<times> nat \<times> state) option" where
  "withLocalApp passes polls E op host s = withLocalApp_loop passes polls E op host 0 s"

subsection \<open>Concrete stores and environments\<close>

text \<open>A store with an expired lock, a lock still running, a value under \<^verbatim>\<open>lock/\<close> that is no
  object, an object under \<^verbatim>\<open>lock/\<close> that is no lock, and a value outside \<^verbatim>\<open>lock/\<close>, at
  time 200.\<close>

definition sweep_example :: state where
  "sweep_example =
     \<lparr>globalState =
        [(''lock/gitpod.io'', JLock \<lparr>lock_value = ''s/0'', deadline = 100\<rparr>),
         (''lock/other'', JLock \<lparr>lock_value = ''s/1'', deadline = 900\<rparr>),
         (''lock/junk'', JStr ''x''),
         (''lock/odd'', JInst \<lparr>path = ''/tmp/app'', etag = None\<rparr>),
         (''config/junk'', JStr ''x'')],
      lockCount = 2, channel = [], effects = [], clock = 200, tick = 0, timer = None,
      cancelled = False\<rparr>"

text \<open>
  A quiet environment: nobody else touches the store, suspensions take no longer than
  asked, the download answers 200 with the tag \<^verbatim>\<open>v1\<close>, files and processes behave, and the
  local app is alive whenever it is probed.
\<close>

definition env0 :: env where
  "env0 =
     \<lparr>sessionId = ''s'', platform = ''linux'', uri_authority = (\<lambda>h. drop 8 h),
      uri_with_path = (\<lambda>h p. h @ p), interfere = (\<lambda>t m. m), elapse = (\<lambda>t. 0),
      timer_fires = (\<lambda>t. True),
      fetch_result = (\<lambda>t u. Inr \<lparr>resp_ok = True, resp_status = 200, resp_statusText = ''OK'',
                                 resp_etag = Some ''v1'', resp_url = u\<rparr>),
      tmp_file = (\<lambda>t. Inr ''/tmp/app''), pipeline = (\<lambda>t p. None), chmod = (\<lambda>t p. None),
      access = (\<lambda>t p. None), kill = (\<lambda>t p. None), kill0 = (\<lambda>t p. None),
      start_files = (\<lambda>t. Inr (''/tmp/cfg'', 4000)), spawn = (\<lambda>t p. Spawned (Inr 77))\<rparr>"

definition state0 :: state where
  "state0 =
     \<lparr>globalState = [], lockCount = 0, channel = [], effects = [], clock = 0, tick = 0,
      timer = None, cancelled = False\<rparr>"

text \<open>
  Another holder takes the lock over while the protected operation runs: at the third
  suspension the store gets a lock with a foreign value. \<open>failing_op\<close> is a protected
  operation that suspends once and then throws, \<open>returning_op\<close> one that returns.
\<close>

definition env_steal :: env where
  "env_steal =
     env0\<lparr>interfere := (\<lambda>t m. if t = 2 then
              memento_update ''lock/gitpod.io''
                (Some (JLock \<lparr>lock_value = ''other/7'', deadline = 99999\<rparr>)) m else m)\<rparr>"

definition failing_op :: "state \<Rightarrow> (js_error + unit) \<times> state" where
  "failing_op s = (Inl (JsError ''boom'' None), await env_steal 0 s)"

definition returning_op :: "state \<Rightarrow> (js_error + nat) \<times> state" where
  "returning_op s = (Inr (tick s), await env0 0 s)"

text \<open>The lock is held by somebody else, who releases it during the second suspension.\<close>

definition env_busy :: env where
  "env_busy =
     env0\<lparr>interfere :=
            (\<lambda>t m. if t = 1 then memento_update ''lock/gitpod.io'' None m else m)\<rparr>"

definition state_busy :: state where
  "state_busy =
     state0\<lparr>globalState :=
              [(''lock/gitpod.io'', JLock \<lparr>lock_value = ''other/7'', deadline = 99999\<rparr>)],
            lockCount := 4, clock := 1000\<rparr>"

subsection \<open>What a run leaves behind\<close>

text \<open>The number of times the output channel says \<^verbatim>\<open>restarting the local app...\<close>, and the
  files to which a download was streamed.\<close>

definition restarts :: "state \<Rightarrow> nat" where
  "restarts s = count_list (channel s) Restarting"

fun streamed :: "effect list \<Rightarrow> string list" where
  "streamed [] = []"
| "streamed (StreamTo p # es) = p # streamed es"
| "streamed (e # es) = streamed es"

text \<open>
  Stores of a host that has the local app installed, and running as well; a store in
  which another window has replaced the config in the meantime; an environment in which
  the local app is dead whenever it is probed, and one in which the server offers the tag
  \<^verbatim>\<open>v2\<close>; an operation that always fails, and one that fails with \<^verbatim>\<open>Unavailable\<close> as long as
  fewer than \<open>ready\<close> suspensions have passed.
\<close>

definition installation0 :: LocalAppInstallation where
  "installation0 = \<lparr>path = ''/tmp/app'', etag = Some ''v1''\<rparr>"

definition config0 :: LocalAppConfig where
  "config0 = \<lparr>gitpodHost = ''https://gitpod.io'', configFile = ''/tmp/cfg'', apiPort = 4000,
               pid = 77, logPath = ''/tmp/app.log''\<rparr>"

definition state_installed :: state where
  "state_installed = state0\<lparr>globalState := [(''installation/gitpod.io'', JInst installation0)]\<rparr>"

definition state_cached :: state where
  "state_cached =
     state0\<lparr>globalState := [(''installation/gitpod.io'', JInst installation0),
                             (''config/gitpod.io'', JConfig config0)]\<rparr>"

definition env_dead :: env where
  "env_dead = env0\<lparr>kill0 := (\<lambda>t p. Some (JsError ''ESRCH'' None))\<rparr>"

definition op_down :: "nat \<Rightarrow> LocalAppConfig \<Rightarrow> js_error + nat" where
  "op_down t c = Inl (JsError ''connection refused'' (Some Unavailable))"

definition op_flaky :: "nat \<Rightarrow> nat \<Rightarrow> LocalAppConfig \<Rightarrow> js_error + nat" where
  "op_flaky ready t c =
     (if t < ready then Inl (JsError ''not ready'' (Some Unavailable)) else Inr 42)"


definition state_refreshed :: state where
  "state_refreshed =
     state0\<lparr>globalState := [(''installation/gitpod.io'', JInst installation0),
                             (''config/gitpod.io'', JConfig (config0\<lparr>pid := 78\<rparr>))]\<rparr>"

text \<open>Seven attempts: the operation fails with \<^verbatim>\<open>Unavailable\<close> six times while the local app
  is alive, and then returns.\<close>

definition seven_attempts :: "((js_error + nat) \<times> nat \<times> state) option" where
  "seven_attempts =
     withLocalApp (Suc (Suc (Suc (Suc (Suc (Suc (Suc 0))))))) (Suc 0) env0 (op_flaky 40)
       ''https://gitpod.io'' state_cached"

section \<open>Properties\<close>

subsection \<open>The store\<close>

lemma memento_get_update:
  "memento_get (memento_update k v m) k' = (if k' = k then v else memento_get m k')"
  by (cases v) (simp_all add: memento_get_def memento_update_def update_conv' delete_conv')

lemma memento_get_None_iff: "memento_get m k = None \<longleftrightarrow> k \<notin> set (memento_keys m)"
  by (simp add: memento_get_def memento_keys_def map_of_eq_None_iff)

subsection \<open>The stale-lock sweep\<close>

lemma releaseStaleLocks_key_get:
  "memento_get (globalState (releaseStaleLocks_key s x)) k =
     (if k = x \<and> startsWith x lockPrefix \<and> stale (clock s) (memento_get (globalState s) x)
      then None else memento_get (globalState s) k)"
  by (simp add: releaseStaleLocks_key_def Let_def update_def appendLine_def memento_get_update)

lemma releaseStaleLocks_key_clock: "clock (releaseStaleLocks_key s x) = clock s"
  by (simp add: releaseStaleLocks_key_def Let_def update_def appendLine_def)

lemma stale_None: "stale now None"
  by (simp add: stale_def)

lemma foldl_releaseStaleLocks_key:
  "memento_get (globalState (foldl releaseStaleLocks_key s ks)) k =
     (if k \<in> set ks \<and> startsWith k lockPrefix \<and> stale (clock s) (memento_get (globalState s) k)
      then None else memento_get (globalState s) k)"
proof (induction ks arbitrary: s)
  case Nil
  then show ?case by simp
next
  case (Cons x xs)
  show ?case
    by (auto simp add: Cons.IH releaseStaleLocks_key_get releaseStaleLocks_key_clock stale_None)
qed

lemma sweep_example_run:
  "globalState (releaseStaleLocks sweep_example) =
     [(''lock/other'', JLock \<lparr>lock_value = ''s/1'', deadline = 900\<rparr>),
      (''lock/odd'', JInst \<lparr>path = ''/tmp/app'', etag = None\<rparr>),
      (''config/junk'', JStr ''x'')]"
  by code_simp

text \<open>
  C7, as amended. The sweep, which the extension runs every \<open>fastLockTimeout\<close> = 30000 ms,
  looks at every key of the store. It clears exactly the entries under the prefix \<^verbatim>\<open>lock/\<close>
  whose value is not an object or whose deadline has elapsed (\<open>stale\<close>: either of the two is
  enough); every other entry of the store is left as it was.
\<close>

theorem releaseStaleLocks_clears:
  "releaseStaleLocksTimer_interval = 30000 \<and>
   memento_get (globalState (releaseStaleLocks s)) k =
     (if startsWith k lockPrefix \<and> stale (clock s) (memento_get (globalState s) k)
      then None else memento_get (globalState s) k)"
proof (cases "memento_get (globalState s) k")
  case None
  then show ?thesis
    by (simp add: releaseStaleLocks_def foldl_releaseStaleLocks_key
        releaseStaleLocksTimer_interval_def fastLockTimeout_def)
next
  case (Some v)
  then have "k \<in> set (memento_keys (globalState s))"
    using memento_get_None_iff [of "globalState s" k] by simp
  then show ?thesis
    by (simp add: releaseStaleLocks_def foldl_releaseStaleLocks_key
        releaseStaleLocksTimer_interval_def fastLockTimeout_def)
qed

text \<open>At the store \<open>sweep_example\<close>: the expired lock and the value that is no object are
  cleared; the running lock, the object without a deadline and the key outside \<^verbatim>\<open>lock/\<close>
  stay.\<close>

theorem releaseStaleLocks_clears_witness:
  "memento_get (globalState (releaseStaleLocks sweep_example)) ''lock/gitpod.io'' = None \<and>
   memento_get (globalState (releaseStaleLocks sweep_example)) ''lock/junk'' = None \<and>
   memento_get (globalState (releaseStaleLocks sweep_example)) ''lock/other''
     = Some (JLock \<lparr>lock_value = ''s/1'', deadline = 900\<rparr>) \<and>
   memento_get (globalState (releaseStaleLocks sweep_example)) ''lock/odd''
     = Some (JInst \<lparr>path = ''/tmp/app'', etag = None\<rparr>) \<and>
   memento_get (globalState (releaseStaleLocks sweep_example)) ''config/junk''
     = Some (JStr ''x'')"
  using releaseStaleLocks_clears [of sweep_example "''lock/gitpod.io''"]
    releaseStaleLocks_clears [of sweep_example "''lock/junk''"]
    releaseStaleLocks_clears [of sweep_example "''lock/other''"]
    releaseStaleLocks_clears [of sweep_example "''lock/odd''"]
    releaseStaleLocks_clears [of sweep_example "''config/junk''"]
  by (simp add: sweep_example_def startsWith_def lockPrefix_def memento_get_def stale_def)

text \<open>
  C7 as stated asks for both conditions at once (deadline elapsed and value not a
  well-formed lock record). In \<open>sweep_example\<close> the entry \<^verbatim>\<open>lock/gitpod.io\<close> is a well-formed
  lock record whose deadline has elapsed, and the entry \<^verbatim>\<open>lock/junk\<close> is no lock record and
  has no deadline to elapse: each meets one condition only, and the sweep clears both. The
  entry \<^verbatim>\<open>lock/odd\<close> is no lock record either, but it is an object, and the sweep keeps it.
\<close>

theorem releaseStaleLocks_well_formed_counterexample:
  "memento_get (globalState sweep_example) ''lock/gitpod.io''
     = Some (JLock \<lparr>lock_value = ''s/0'', deadline = 100\<rparr>) \<and>
   clock sweep_example \<ge> 100 \<and>
   memento_get (globalState (releaseStaleLocks sweep_example)) ''lock/gitpod.io'' = None \<and>
   memento_get (globalState sweep_example) ''lock/junk'' = Some (JStr ''x'') \<and>
   deadline_of (Some (JStr ''x'')) = None \<and>
   memento_get (globalState (releaseStaleLocks sweep_example)) ''lock/junk'' = None \<and>
   memento_get (globalState sweep_example) ''lock/odd''
     = Some (JInst \<lparr>path = ''/tmp/app'', etag = None\<rparr>) \<and>
   memento_get (globalState (releaseStaleLocks sweep_example)) ''lock/odd''
     = Some (JInst \<lparr>path = ''/tmp/app'', etag = None\<rparr>)"
  by (simp add: sweep_example_run) (simp add: sweep_example_def memento_get_def)

subsection \<open>What each step does to each part of the state\<close>

lemma appendLine_sel [simp]:
  "globalState (appendLine l s) = globalState s"
  "lockCount (appendLine l s) = lockCount s"
  "channel (appendLine l s) = channel s @ [l]"
  "effects (appendLine l s) = effects s"
  "clock (appendLine l s) = clock s"
  "tick (appendLine l s) = tick s"
  "timer (appendLine l s) = timer s"
  "cancelled (appendLine l s) = cancelled s"
  by (simp_all add: appendLine_def)

lemma perform_sel [simp]:
  "globalState (perform e s) = globalState s"
  "lockCount (perform e s) = lockCount s"
  "channel (perform e s) = channel s"
  "effects (perform e s) = effects s @ [e]"
  "clock (perform e s) = clock s"
  "tick (perform e s) = tick s"
  "timer (perform e s) = timer s"
  "cancelled (perform e s) = cancelled s"
  by (simp_all add: perform_def)

lemma update_sel [simp]:
  "globalState (update k v s) = memento_update k v (globalState s)"
  "lockCount (update k v s) = lockCount s"
  "channel (update k v s) = channel s"
  "effects (update k v s) = effects s"
  "clock (update k v s) = clock s"
  "tick (update k v s) = tick s"
  "timer (update k v s) = timer s"
  "cancelled (update k v s) = cancelled s"
  by (simp_all add: update_def)

lemma await_sel [simp]:
  "globalState (await E d s) = interfere E (tick s) (globalState s)"
  "lockCount (await E d s) = lockCount s"
  "channel (await E d s) = channel s"
  "effects (await E d s) = effects s"
  "clock (await E d s) = clock s + d + elapse E (tick s)"
  "tick (await E d s) = tick s + 1"
  "timer (await E d s) = timer s"
  by (simp_all add: await_def Let_def)

lemma await_cancelled [simp]: "cancelled s \<Longrightarrow> cancelled (await E d s)"
  by (simp add: await_def Let_def split: option.splits)

subsection \<open>Decimal digits\<close>

lemma show_nat_nonempty: "show_nat n \<noteq> []"
  by (subst show_nat.simps) simp

lemma digit_inj: "m < 10 \<Longrightarrow> n < 10 \<Longrightarrow> digit m = digit n \<Longrightarrow> m = n"
  unfolding digit_def by (subst (asm) nth_eq_iff_index_eq) simp_all

lemma show_nat_digit: "n < 10 \<Longrightarrow> show_nat n = [digit n]"
  by (subst show_nat.simps) simp

lemma show_nat_inj: "show_nat m = show_nat n \<Longrightarrow> m = n"
proof (induction m arbitrary: n rule: show_nat.induct)
  case (1 m)
  show ?case
  proof (cases "m < 10")
    case True
    show ?thesis
    proof (cases "n < 10")
      case n: True
      from "1.prems" True n have "digit m = digit n"
        by (subst (asm) show_nat.simps, subst (asm) (2) show_nat.simps) simp
      with True n show ?thesis by (rule digit_inj)
    next
      case n: False
      from "1.prems" True n have "[digit m] = show_nat (n div 10) @ [digit (n mod 10)]"
        by (subst (asm) show_nat.simps, subst (asm) (2) show_nat.simps) simp
      then show ?thesis using show_nat_nonempty [of "n div 10"] by (cases "show_nat (n div 10)") simp_all
    qed
  next
    case False
    show ?thesis
    proof (cases "n < 10")
      case n: True
      from "1.prems" False n have "show_nat (m div 10) @ [digit (m mod 10)] = [digit n]"
        by (subst (asm) show_nat.simps, subst (asm) (2) show_nat.simps) simp
      then show ?thesis using show_nat_nonempty [of "m div 10"] by (cases "show_nat (m div 10)") simp_all
    next
      case n: False
      from "1.prems" False n
      have eq: "show_nat (m div 10) @ [digit (m mod 10)] = show_nat (n div 10) @ [digit (n mod 10)]"
        by (subst (asm) show_nat.simps, subst (asm) (2) show_nat.simps) simp
      then have a: "show_nat (m div 10) = show_nat (n div 10)"
        and b: "digit (m mod 10) = digit (n mod 10)" by simp_all
      from "1.IH" [OF False a] have d: "m div 10 = n div 10" .
      have "m mod 10 = n mod 10" using b by (intro digit_inj) simp_all
      with d show ?thesis by (metis div_mult_mod_eq)
    qed
  qed
qed

subsection \<open>withLock\<close>

lemma acquire_poll_sel [simp]:
  "lockCount (acquire_poll E k v t s) = lockCount s"
  "channel (acquire_poll E k v t s) = channel s"
  "effects (acquire_poll E k v t s) = effects s"
  "timer (acquire_poll E k v t s) = timer s"
  by (simp_all add: acquire_poll_def Let_def)

lemma acquire_poll_clock: "clock s + 150 \<le> clock (acquire_poll E k v t s)"
  by (simp add: acquire_poll_def Let_def updateTimeout_def)

lemma acquire_sel:
  "acquire n E k v t s = Some s' \<Longrightarrow>
     lockCount s' = lockCount s \<and> channel s' = channel s \<and> effects s' = effects s \<and>
     timer s' = timer s \<and> clock s + 150 \<le> clock s' \<and>
     value_of (memento_get (globalState s') k) = Some v"
proof (induction n arbitrary: s)
  case 0
  then show ?case by simp
next
  case (Suc n)
  show ?case
  proof (cases "value_of (memento_get (globalState (acquire_poll E k v t s)) k) = Some v")
    case True
    with Suc.prems show ?thesis
      using acquire_poll_clock [of s E k v t] by (auto simp add: Let_def)
  next
    case False
    with Suc.prems have "acquire n E k v t (acquire_poll E k v t s) = Some s'"
      by (simp add: Let_def)
    from Suc.IH [OF this] show ?thesis
      using acquire_poll_clock [of s E k v t] by simp
  qed
qed

lemma withLock_unfold:
  "withLock polls E lockName op timeout s =
     (case acquire polls E (lockPrefix @ lockName) (sessionId E @ ''/'' @ show_nat (lockCount s)) timeout
             ((appendLine (AcquiringLock lockName) s)\<lparr>lockCount := lockCount s + 1\<rparr>) of
        None \<Rightarrow> None
      | Some s2 \<Rightarrow>
          Some (fst (op ((appendLine (AcquiredLock lockName) s2)
                          \<lparr>timer := Some (lockPrefix @ lockName, sessionId E @ ''/'' @ show_nat (lockCount s)),
                             cancelled := False\<rparr>)),
                await E 0 (update (lockPrefix @ lockName) None
                  (appendLine (ReleasedLock lockName)
                    ((snd (op ((appendLine (AcquiredLock lockName) s2)
                          \<lparr>timer := Some (lockPrefix @ lockName, sessionId E @ ''/'' @ show_nat (lockCount s)),
                             cancelled := False\<rparr>)))\<lparr>timer := None\<rparr>)))))"
  by (simp add: withLock_def Let_def case_prod_unfold cong: option.case_cong)

lemma withLock_run:
  assumes "withLock polls E lockName op timeout s = Some (r, s')"
  shows "\<exists>s3. r = fst (op s3) \<and>
           s' = await E 0 (update (lockPrefix @ lockName) None
                  (appendLine (ReleasedLock lockName) ((snd (op s3))\<lparr>timer := None\<rparr>))) \<and>
           value_of (memento_get (globalState s3) (lockPrefix @ lockName))
             = Some (sessionId E @ ''/'' @ show_nat (lockCount s)) \<and>
           lockCount s3 = lockCount s + 1 \<and> effects s3 = effects s \<and>
           channel s3 = channel s @ [AcquiringLock lockName, AcquiredLock lockName]"
proof -
  let ?v = "sessionId E @ ''/'' @ show_nat (lockCount s)"
  let ?s1 = "(appendLine (AcquiringLock lockName) s)\<lparr>lockCount := lockCount s + 1\<rparr>"
  from assms obtain s2 where
    acq: "acquire polls E (lockPrefix @ lockName) ?v timeout ?s1 = Some s2"
    and r: "r = fst (op ((appendLine (AcquiredLock lockName) s2)
                          \<lparr>timer := Some (lockPrefix @ lockName, ?v), cancelled := False\<rparr>))"
    and s': "s' = await E 0 (update (lockPrefix @ lockName) None
                  (appendLine (ReleasedLock lockName)
                    ((snd (op ((appendLine (AcquiredLock lockName) s2)
                          \<lparr>timer := Some (lockPrefix @ lockName, ?v), cancelled := False\<rparr>)))\<lparr>timer := None\<rparr>)))"
    by (auto simp add: withLock_unfold split: option.splits)
  from acquire_sel [OF acq] have "lockCount s2 = lockCount s + 1" "effects s2 = effects s"
    "channel s2 = channel s @ [AcquiringLock lockName]"
    and "value_of (memento_get (globalState s2) (lockPrefix @ lockName)) = Some ?v"
    by simp_all
  with r s' show ?thesis
    by (intro exI [of _ "(appendLine (AcquiredLock lockName) s2)
                          \<lparr>timer := Some (lockPrefix @ lockName, ?v), cancelled := False\<rparr>"])
      simp
qed

text \<open>The definitions a concrete run unfolds.\<close>

lemmas run_defs = withLock_def acquire_poll_def await_def update_def appendLine_def perform_def
  memento_get_def memento_update_def lockPrefix_def updateTimeout_def fastLockTimeout_def
  slowLockTimeout_def throwIfCancelled_def show_nat_digit digit_def Let_def

text \<open>
  C8. \<^verbatim>\<open>withLock\<close> returns exactly when it gets the lock (the protected operation of the
  model always completes). When it returns, its result is the outcome of the protected
  operation, a value or an error alike, and the last thing it did to the store was to clear
  the key of the lock: the store it leaves is the store the operation left, with the key of
  the lock absent, and then whatever the others did during that last suspension. The
  update does not look at the lock that is stored, so it clears a lock that carries
  another value too.
\<close>

theorem withLock_clears_lock:
  "(withLock polls E lockName op timeout s = None \<longleftrightarrow>
      acquire polls E (lockPrefix @ lockName) (sessionId E @ ''/'' @ show_nat (lockCount s))
        timeout ((appendLine (AcquiringLock lockName) s)\<lparr>lockCount := lockCount s + 1\<rparr>) = None) \<and>
   (withLock polls E lockName op timeout s = Some (result, s') \<longrightarrow>
      (\<exists>s3 s4. op s3 = (result, s4) \<and> tick s' = tick s4 + 1 \<and>
         globalState s' =
           interfere E (tick s4)
             (memento_update (lockPrefix @ lockName) None (globalState s4)))) \<and>
   memento_get (memento_update (lockPrefix @ lockName) None g) (lockPrefix @ lockName) = None"
proof -
  have blocked: "withLock polls E lockName op timeout s = None \<longleftrightarrow>
      acquire polls E (lockPrefix @ lockName) (sessionId E @ ''/'' @ show_nat (lockCount s))
        timeout ((appendLine (AcquiringLock lockName) s)\<lparr>lockCount := lockCount s + 1\<rparr>) = None"
    by (simp add: withLock_unfold split: option.splits)
  have cleared: "\<exists>s3 s4. op s3 = (result, s4) \<and> tick s' = tick s4 + 1 \<and>
         globalState s' =
           interfere E (tick s4)
             (memento_update (lockPrefix @ lockName) None (globalState s4))"
    if run: "withLock polls E lockName op timeout s = Some (result, s')"
  proof -
    from withLock_run [OF run] obtain s3 where
      r: "result = fst (op s3)"
      and s': "s' = await E 0 (update (lockPrefix @ lockName) None
                  (appendLine (ReleasedLock lockName) ((snd (op s3))\<lparr>timer := None\<rparr>)))"
      by blast
    have "op s3 = (result, snd (op s3))" using r by simp
    moreover have "tick s' = tick (snd (op s3)) + 1" using s' by simp
    moreover have "globalState s' = interfere E (tick (snd (op s3)))
        (memento_update (lockPrefix @ lockName) None (globalState (snd (op s3))))"
      using s' by simp
    ultimately show ?thesis by blast
  qed
  have "memento_get (memento_update (lockPrefix @ lockName) None g) (lockPrefix @ lockName) = None"
    by (simp add: memento_get_update)
  with blocked cleared show ?thesis by blast
qed

text \<open>In \<open>env_steal\<close> the operation throws, and by then the store holds the lock of another
  holder (the timer has seen it and cancelled the token): the key is cleared all the same.\<close>

lemma steal_run:
  "map_option (\<lambda>(r, s). (r, tick s, cancelled s))
     (withLock (Suc 0) env_steal ''gitpod.io'' failing_op fastLockTimeout state0)
   = Some (Inl (JsError ''boom'' None), 4, True)"
  by (simp add: run_defs env_steal_def env0_def state0_def failing_op_def)

theorem withLock_clears_lock_witness:
  "\<exists>s'. withLock (Suc 0) env_steal ''gitpod.io'' failing_op fastLockTimeout state0
           = Some (Inl (JsError ''boom'' None), s') \<and>
        cancelled s' \<and> memento_get (globalState s') ''lock/gitpod.io'' = None"
proof -
  from steal_run obtain s' where
    run: "withLock (Suc 0) env_steal ''gitpod.io'' failing_op fastLockTimeout state0
            = Some (Inl (JsError ''boom'' None), s')"
    and t: "tick s' = 4" and c: "cancelled s'"
    by auto
  from withLock_clears_lock [THEN conjunct2, THEN conjunct1, THEN mp, OF run]
  obtain s4 :: state where
    "tick s' = tick s4 + 1"
    "globalState s' = interfere env_steal (tick s4)
       (memento_update (lockPrefix @ ''gitpod.io'') None (globalState s4))"
    by blast
  with t have "globalState s' = memento_update ''lock/gitpod.io'' None (globalState s4)"
    by (simp add: env_steal_def env0_def lockPrefix_def)
  then have "memento_get (globalState s') ''lock/gitpod.io'' = None"
    by (simp add: memento_get_update)
  with run c show ?thesis by blast
qed

text \<open>
  C4. One poll of \<^verbatim>\<open>withLock\<close>: when the key of the lock holds nothing, the poll writes
  the lock with the own value and the deadline now + timeout + 2 * 150 ms; when the key holds
  a lock it writes nothing; either way it then waits at least 150 ms. The loop ends exactly
  when the lock read after that wait carries the own value, and polls again otherwise. So
  when \<^verbatim>\<open>withLock\<close> returns, the protected operation ran in a state whose store echoed the
  own value, which is the session id, a slash and the counter \<^verbatim>\<open>lockCount\<close> before the
  call; the counter has grown by one, and two values of the counter never give the same
  value of the lock. And \<^verbatim>\<open>withLock\<close> goes on to the protected operation and returns exactly
  when that loop ends.
\<close>

theorem withLock_acquire:
  "(\<not> truthy (memento_get (globalState s) lockKey) \<longrightarrow>
      globalState (acquire_poll E lockKey v timeout s) =
        interfere E (tick s + 1) (interfere E (tick s)
          (memento_update lockKey
             (Some (JLock \<lparr>lock_value = v, deadline = clock s + timeout + 2 * 150\<rparr>))
             (globalState s)))) \<and>
   (truthy (memento_get (globalState s) lockKey) \<longrightarrow>
      globalState (acquire_poll E lockKey v timeout s) = interfere E (tick s) (globalState s)) \<and>
   clock s + 150 \<le> clock (acquire_poll E lockKey v timeout s) \<and>
   acquire (Suc n) E lockKey v timeout s =
     (if value_of (memento_get (globalState (acquire_poll E lockKey v timeout s)) lockKey) = Some v
      then Some (acquire_poll E lockKey v timeout s)
      else acquire n E lockKey v timeout (acquire_poll E lockKey v timeout s)) \<and>
   (withLock polls E lockName op timeout s = Some (result, s') \<longrightarrow>
      (\<exists>s3. fst (op s3) = result \<and> lockCount s3 = lockCount s + 1 \<and>
            value_of (memento_get (globalState s3) (lockPrefix @ lockName))
              = Some (sessionId E @ ''/'' @ show_nat (lockCount s)))) \<and>
   (sessionId E @ ''/'' @ show_nat i = sessionId E @ ''/'' @ show_nat j \<longrightarrow> i = j) \<and>
   (withLock polls E lockName op timeout s = None \<longleftrightarrow>
      acquire polls E (lockPrefix @ lockName) (sessionId E @ ''/'' @ show_nat (lockCount s))
        timeout ((appendLine (AcquiringLock lockName) s)\<lparr>lockCount := lockCount s + 1\<rparr>) = None)"
proof -
  have wr: "\<not> truthy (memento_get (globalState s) lockKey) \<longrightarrow>
      globalState (acquire_poll E lockKey v timeout s) =
        interfere E (tick s + 1) (interfere E (tick s)
          (memento_update lockKey
             (Some (JLock \<lparr>lock_value = v, deadline = clock s + timeout + 2 * 150\<rparr>))
             (globalState s)))"
    by (simp add: acquire_poll_def Let_def updateTimeout_def)
  have wait: "truthy (memento_get (globalState s) lockKey) \<longrightarrow>
      globalState (acquire_poll E lockKey v timeout s) = interfere E (tick s) (globalState s)"
    by (simp add: acquire_poll_def Let_def)
  have loop: "acquire (Suc n) E lockKey v timeout s =
     (if value_of (memento_get (globalState (acquire_poll E lockKey v timeout s)) lockKey) = Some v
      then Some (acquire_poll E lockKey v timeout s)
      else acquire n E lockKey v timeout (acquire_poll E lockKey v timeout s))"
    by (simp add: Let_def)
  have held: "\<exists>s3. fst (op s3) = result \<and> lockCount s3 = lockCount s + 1 \<and>
            value_of (memento_get (globalState s3) (lockPrefix @ lockName))
              = Some (sessionId E @ ''/'' @ show_nat (lockCount s))"
    if run: "withLock polls E lockName op timeout s = Some (result, s')"
  proof -
    let ?v = "sessionId E @ ''/'' @ show_nat (lockCount s)"
    let ?s1 = "(appendLine (AcquiringLock lockName) s)\<lparr>lockCount := lockCount s + 1\<rparr>"
    from run obtain s2 where
      acq: "acquire polls E (lockPrefix @ lockName) ?v timeout ?s1 = Some s2"
      and r: "result = fst (op ((appendLine (AcquiredLock lockName) s2)
                          \<lparr>timer := Some (lockPrefix @ lockName, ?v), cancelled := False\<rparr>))"
      by (auto simp add: withLock_unfold split: option.splits)
    from acquire_sel [OF acq] have "lockCount s2 = lockCount s + 1"
      and "value_of (memento_get (globalState s2) (lockPrefix @ lockName)) = Some ?v"
      by simp_all
    with r show ?thesis
      by (intro exI [of _ "(appendLine (AcquiredLock lockName) s2)
                          \<lparr>timer := Some (lockPrefix @ lockName, ?v), cancelled := False\<rparr>"])
        simp
  qed
  have unique: "sessionId E @ ''/'' @ show_nat i = sessionId E @ ''/'' @ show_nat j \<longrightarrow> i = j"
    by (auto dest: show_nat_inj)
  have link: "withLock polls E lockName op timeout s = None \<longleftrightarrow>
      acquire polls E (lockPrefix @ lockName) (sessionId E @ ''/'' @ show_nat (lockCount s))
        timeout ((appendLine (AcquiringLock lockName) s)\<lparr>lockCount := lockCount s + 1\<rparr>) = None"
    by (simp add: withLock_unfold split: option.splits)
  from wr wait acquire_poll_clock [of s E lockKey v timeout] loop held unique link
  show ?thesis by blast
qed

text \<open>A poll that finds a foreign lock leaves the store alone and goes on polling; a poll
  that finds nothing writes the lock and acquires it; and in \<open>env_busy\<close> the third poll
  acquires the lock that the other holder released, with the value \<^verbatim>\<open>s/4\<close>.\<close>

lemma busy_run:
  "map_option fst (withLock (Suc (Suc (Suc 0))) env_busy ''gitpod.io'' returning_op 30000 state_busy)
     = Some (Inr 4)"
  by (simp add: run_defs env_busy_def env0_def state_busy_def state0_def returning_op_def)

theorem withLock_acquire_witness:
  "globalState (acquire_poll env_busy ''lock/gitpod.io'' ''s/4'' 30000 state_busy)
     = globalState state_busy \<and>
   globalState (acquire_poll env0 ''lock/gitpod.io'' ''s/0'' 30000 state0)
     = [(''lock/gitpod.io'', JLock \<lparr>lock_value = ''s/0'', deadline = 30300\<rparr>)] \<and>
   acquire 1 env0 ''lock/gitpod.io'' ''s/0'' 30000 state0
     = Some (acquire_poll env0 ''lock/gitpod.io'' ''s/0'' 30000 state0) \<and>
   acquire 1 env_busy ''lock/gitpod.io'' ''s/4'' 30000 state_busy = None \<and>
   (\<exists>s3. fst (returning_op s3) = Inr 4 \<and> lockCount s3 = 5 \<and>
      value_of (memento_get (globalState s3) ''lock/gitpod.io'') = Some ''s/4'') \<and>
   map_option fst
     (withLock (Suc (Suc (Suc 0))) env_busy ''gitpod.io'' returning_op 30000 state_busy)
     = Some (Inr 4)"
proof -
  note busy = withLock_acquire [of state_busy "''lock/gitpod.io''" env_busy "''s/4''" 30000 0]
  note free = withLock_acquire [of state0 "''lock/gitpod.io''" env0 "''s/0''" 30000 0]
  have "truthy (memento_get (globalState state_busy) ''lock/gitpod.io'')"
    by (simp add: state_busy_def state0_def memento_get_def)
  with busy [THEN conjunct2, THEN conjunct1]
  have "globalState (acquire_poll env_busy ''lock/gitpod.io'' ''s/4'' 30000 state_busy)
     = interfere env_busy (tick state_busy) (globalState state_busy)"
    by blast
  then have b: "globalState (acquire_poll env_busy ''lock/gitpod.io'' ''s/4'' 30000 state_busy)
     = globalState state_busy"
    by (simp add: env_busy_def env0_def state_busy_def state0_def)
  have "\<not> truthy (memento_get (globalState state0) ''lock/gitpod.io'')"
    by (simp add: state0_def memento_get_def)
  with free [THEN conjunct1]
  have "globalState (acquire_poll env0 ''lock/gitpod.io'' ''s/0'' 30000 state0) =
        interfere env0 (tick state0 + 1) (interfere env0 (tick state0)
          (memento_update ''lock/gitpod.io''
             (Some (JLock \<lparr>lock_value = ''s/0'', deadline = clock state0 + 30000 + 2 * 150\<rparr>))
             (globalState state0)))"
    by blast
  then have f: "globalState (acquire_poll env0 ''lock/gitpod.io'' ''s/0'' 30000 state0)
     = [(''lock/gitpod.io'', JLock \<lparr>lock_value = ''s/0'', deadline = 30300\<rparr>)]"
    by (simp add: env0_def state0_def memento_update_def)
  from free [THEN conjunct2, THEN conjunct2, THEN conjunct2, THEN conjunct1] f
  have a1: "acquire 1 env0 ''lock/gitpod.io'' ''s/0'' 30000 state0
     = Some (acquire_poll env0 ''lock/gitpod.io'' ''s/0'' 30000 state0)"
    by (simp add: memento_get_def)
  from busy [THEN conjunct2, THEN conjunct2, THEN conjunct2, THEN conjunct1] b
  have a2: "acquire 1 env_busy ''lock/gitpod.io'' ''s/4'' 30000 state_busy = None"
    by (simp add: memento_get_def state_busy_def state0_def)
  from busy_run obtain s' where
    run: "withLock (Suc (Suc (Suc 0))) env_busy ''gitpod.io'' returning_op 30000 state_busy = Some (Inr 4, s')"
    by auto
  from withLock_acquire [of state_busy _ env_busy _ 30000 _ "Suc (Suc (Suc 0))" "''gitpod.io''" returning_op "Inr 4" s',
      THEN conjunct2, THEN conjunct2, THEN conjunct2, THEN conjunct2, THEN conjunct1] run
  have "\<exists>s3. fst (returning_op s3) = Inr 4 \<and> lockCount s3 = lockCount state_busy + 1 \<and>
      value_of (memento_get (globalState s3) (lockPrefix @ ''gitpod.io''))
        = Some (sessionId env_busy @ ''/'' @ show_nat (lockCount state_busy))"
    by blast
  moreover have "show_nat 4 = ''4''" by (simp add: show_nat_digit digit_def)
  ultimately have "\<exists>s3. fst (returning_op s3) = Inr 4 \<and> lockCount s3 = 5 \<and>
      value_of (memento_get (globalState s3) ''lock/gitpod.io'') = Some ''s/4''"
    by (simp add: state_busy_def state0_def env_busy_def env0_def lockPrefix_def)
  with b f a1 a2 busy_run show ?thesis by blast
qed

subsection \<open>Restart lines in the output channel\<close>

lemma restarts_simps [simp]:
  "restarts (appendLine l s) = restarts s + (if l = Restarting then 1 else 0)"
  "restarts (perform e s) = restarts s"
  "restarts (update k v s) = restarts s"
  "restarts (await E d s) = restarts s"
  "restarts (s\<lparr>timer := t\<rparr>) = restarts s"
  "restarts (s\<lparr>cancelled := c\<rparr>) = restarts s"
  "restarts (s\<lparr>lockCount := j\<rparr>) = restarts s"
  by (simp_all add: restarts_def)

lemma acquire_restarts: "acquire n E k v t s = Some s' \<Longrightarrow> restarts s' = restarts s"
  using acquire_sel [of n E k v t s s'] by (simp add: restarts_def)

lemma withLock_restarts:
  assumes "withLock polls E lockName op timeout s = Some (r, s')"
    and "\<And>s3. restarts (snd (op s3)) = restarts s3"
  shows "restarts s' = restarts s"
proof -
  from assms(1) obtain s2 where
    acq: "acquire polls E (lockPrefix @ lockName) (sessionId E @ ''/'' @ show_nat (lockCount s)) timeout
             ((appendLine (AcquiringLock lockName) s)\<lparr>lockCount := lockCount s + 1\<rparr>) = Some s2"
    and s': "s' = await E 0 (update (lockPrefix @ lockName) None
                  (appendLine (ReleasedLock lockName)
                    ((snd (op ((appendLine (AcquiredLock lockName) s2)
                          \<lparr>timer := Some (lockPrefix @ lockName, sessionId E @ ''/'' @ show_nat (lockCount s)),
                             cancelled := False\<rparr>)))\<lparr>timer := None\<rparr>)))"
    by (auto simp add: withLock_unfold split: option.splits)
  from acquire_restarts [OF acq] have "restarts s2 = restarts s" by simp
  with s' assms(2) show ?thesis by simp
qed

lemma installLocalApp_restarts: "restarts (snd (installLocalApp E r s)) = restarts s"
  by (simp add: installLocalApp_def installLocalApp_try_def Let_def throwIfCancelled_def
      split: sum.splits option.splits prod.splits)

lemma startLocalApp_restarts: "restarts (snd (startLocalApp E host inst s)) = restarts s"
  by (simp add: startLocalApp_def startLocalApp_try_def Let_def throwIfCancelled_def
      split: sum.splits option.splits prod.splits spawn_outcome.splits)

lemma ensureLocalApp_download_restarts:
  "restarts (snd (ensureLocalApp_download E host s)) = restarts s"
  by (simp add: ensureLocalApp_download_def downloadLocalApp_def Let_def
      split: sum.splits option.splits)

lemma ensureLocalApp_upgrade_restarts:
  "restarts (snd (snd (ensureLocalApp_upgrade E d c i s))) = restarts s"
  by (simp add: ensureLocalApp_upgrade_def Let_def split: sum.splits option.splits)

lemma ensureLocalApp_check_restarts:
  "restarts (snd (ensureLocalApp_check E i s)) = restarts s"
  by (simp add: ensureLocalApp_check_def Let_def split: sum.splits option.splits)

lemma ensureLocalApp_install_restarts:
  "restarts (snd (ensureLocalApp_install E d k i s)) = restarts s"
  using installLocalApp_restarts [of E _ s]
  by (auto simp add: ensureLocalApp_install_def Let_def split: sum.splits option.splits prod.splits)
    (metis snd_conv)+

lemma ensureLocalApp_start_restarts:
  "restarts (snd (ensureLocalApp_start E host k i s)) = restarts s"
  using startLocalApp_restarts [of E host i s]
  by (auto simp add: ensureLocalApp_start_def Let_def split: sum.splits option.splits prod.splits)

lemma ensureLocalApp_restarts:
  "restarts (snd (ensureLocalApp E host ck ik s)) = restarts s"
proof -
  obtain d s1 where d: "ensureLocalApp_download E host s = (d, s1)"
    by (cases "ensureLocalApp_download E host s")
  obtain c i s2 where u: "ensureLocalApp_upgrade E d (as_config (memento_get (globalState s1) ck))
        (as_installation (memento_get (globalState s1) ik)) s1 = (c, i, s2)"
    by (cases "ensureLocalApp_upgrade E d (as_config (memento_get (globalState s1) ck))
        (as_installation (memento_get (globalState s1) ik)) s1")
  obtain i' s3 where c: "ensureLocalApp_check E i s2 = (i', s3)"
    by (cases "ensureLocalApp_check E i s2")
  obtain r s4 where i: "ensureLocalApp_install E d ik i' s3 = (r, s4)"
    by (cases "ensureLocalApp_install E d ik i' s3")
  have "restarts s1 = restarts s" using ensureLocalApp_download_restarts [of E host s] d by simp
  moreover have "restarts s2 = restarts s1"
    using ensureLocalApp_upgrade_restarts [of E d _ _ s1] u by (metis snd_conv)
  moreover have "restarts s3 = restarts s2" using ensureLocalApp_check_restarts [of E i s2] c by simp
  moreover have "restarts s4 = restarts s3"
    using ensureLocalApp_install_restarts [of E d ik i' s3] i by simp
  ultimately show ?thesis
    using d u c i ensureLocalApp_start_restarts [of E host ck _ s4]
    by (simp add: ensureLocalApp_def split: option.splits sum.splits)
qed


subsection \<open>The counter of locks\<close>

lemma withLock_lockCount:
  assumes "withLock polls E lockName op timeout s = Some (r, s')"
    and "\<And>s3. lockCount (snd (op s3)) = lockCount s3"
  shows "lockCount s' = lockCount s + 1"
proof -
  from withLock_run [OF assms(1)] obtain s3 where
    "s' = await E 0 (update (lockPrefix @ lockName) None
            (appendLine (ReleasedLock lockName) ((snd (op s3))\<lparr>timer := None\<rparr>)))"
    and "lockCount s3 = lockCount s + 1"
    by blast
  with assms(2) [of s3] show ?thesis by simp
qed

lemma installLocalApp_lockCount: "lockCount (snd (installLocalApp E r s)) = lockCount s"
  by (simp add: installLocalApp_def installLocalApp_try_def Let_def throwIfCancelled_def
      split: sum.splits option.splits prod.splits)

lemma startLocalApp_lockCount: "lockCount (snd (startLocalApp E host inst s)) = lockCount s"
  by (simp add: startLocalApp_def startLocalApp_try_def Let_def throwIfCancelled_def
      split: sum.splits option.splits prod.splits spawn_outcome.splits)

lemma ensureLocalApp_download_lockCount:
  "lockCount (snd (ensureLocalApp_download E host s)) = lockCount s"
  by (simp add: ensureLocalApp_download_def downloadLocalApp_def Let_def
      split: sum.splits option.splits)

lemma ensureLocalApp_upgrade_lockCount:
  "lockCount (snd (snd (ensureLocalApp_upgrade E d c i s))) = lockCount s"
  by (simp add: ensureLocalApp_upgrade_def Let_def split: sum.splits option.splits)

lemma ensureLocalApp_check_lockCount:
  "lockCount (snd (ensureLocalApp_check E i s)) = lockCount s"
  by (simp add: ensureLocalApp_check_def Let_def split: sum.splits option.splits)

lemma ensureLocalApp_install_lockCount:
  "lockCount (snd (ensureLocalApp_install E d k i s)) = lockCount s"
  using installLocalApp_lockCount [of E _ s]
  by (auto simp add: ensureLocalApp_install_def Let_def split: sum.splits option.splits prod.splits)
    (metis snd_conv)+

lemma ensureLocalApp_start_lockCount:
  "lockCount (snd (ensureLocalApp_start E host k i s)) = lockCount s"
  using startLocalApp_lockCount [of E host i s]
  by (auto simp add: ensureLocalApp_start_def Let_def split: sum.splits option.splits prod.splits)

lemma ensureLocalApp_lockCount:
  "lockCount (snd (ensureLocalApp E host ck ik s)) = lockCount s"
proof -
  obtain d s1 where d: "ensureLocalApp_download E host s = (d, s1)"
    by (cases "ensureLocalApp_download E host s")
  obtain c i s2 where u: "ensureLocalApp_upgrade E d (as_config (memento_get (globalState s1) ck))
        (as_installation (memento_get (globalState s1) ik)) s1 = (c, i, s2)"
    by (cases "ensureLocalApp_upgrade E d (as_config (memento_get (globalState s1) ck))
        (as_installation (memento_get (globalState s1) ik)) s1")
  obtain i' s3 where c: "ensureLocalApp_check E i s2 = (i', s3)"
    by (cases "ensureLocalApp_check E i s2")
  obtain r s4 where i: "ensureLocalApp_install E d ik i' s3 = (r, s4)"
    by (cases "ensureLocalApp_install E d ik i' s3")
  have "lockCount s1 = lockCount s" using ensureLocalApp_download_lockCount [of E host s] d by simp
  moreover have "lockCount s2 = lockCount s1"
    using ensureLocalApp_upgrade_lockCount [of E d _ _ s1] u by (metis snd_conv)
  moreover have "lockCount s3 = lockCount s2" using ensureLocalApp_check_lockCount [of E i s2] c by simp
  moreover have "lockCount s4 = lockCount s3"
    using ensureLocalApp_install_lockCount [of E d ik i' s3] i by simp
  ultimately show ?thesis
    using d u c i ensureLocalApp_start_lockCount [of E host ck _ s4]
    by (simp add: ensureLocalApp_def split: option.splits sum.splits)
qed

subsection \<open>ensureLocalApp\<close>

lemma streamed_append [simp]: "streamed (xs @ ys) = streamed xs @ streamed ys"
  by (induction xs rule: streamed.induct) simp_all

lemma ensureLocalApp_download_state:
  "snd (ensureLocalApp_download E host s) =
     await E 0 (perform (Fetch (downloadUri E host)) (appendLine (Fetching (downloadUri E host)) s))"
  by (simp add: ensureLocalApp_download_def downloadLocalApp_def Let_def
      split: sum.splits option.splits)

lemma no_upgrade:
  "(case installation of None \<Rightarrow> True
    | Some inst \<Rightarrow> (case download of Inl e \<Rightarrow> True
        | Inr r \<Rightarrow> resp_etag r = None \<or> resp_etag r = Some [] \<or> resp_etag r = etag inst))
   \<Longrightarrow> ensureLocalApp_upgrade E download config installation s = (config, installation, s)"
  by (auto simp add: ensureLocalApp_upgrade_def split: option.splits sum.splits)

lemma ensureLocalApp_download_result:
  "fetch_result E (tick s) (downloadUri E host) = Inr r \<Longrightarrow>
     (\<exists>e. fst (ensureLocalApp_download E host s) = Inl e) \<or>
     fst (ensureLocalApp_download E host s) = Inr r"
  by (simp add: ensureLocalApp_download_def downloadLocalApp_def Let_def
      split: option.splits)

lemma startLocalApp_streamed:
  "streamed (effects (snd (startLocalApp E host inst s))) = streamed (effects s)"
  by (simp add: startLocalApp_def startLocalApp_try_def Let_def throwIfCancelled_def
      split: sum.splits option.splits prod.splits spawn_outcome.splits)

lemma ensureLocalApp_start_streamed:
  "streamed (effects (snd (ensureLocalApp_start E host configKey inst s))) = streamed (effects s)"
  using startLocalApp_streamed [of E host inst s]
  by (auto simp add: ensureLocalApp_start_def Let_def split: sum.splits option.splits prod.splits)

lemma installLocalApp_cancelled:
  "cancelled s \<Longrightarrow>
     (\<exists>e. fst (installLocalApp E r s) = Inl e) \<and>
     streamed (effects (snd (installLocalApp E r s))) = streamed (effects s)"
  by (simp add: installLocalApp_def installLocalApp_try_def Let_def throwIfCancelled_def
      split: sum.splits)

subsection \<open>The passes of the loop of withLocalApp\<close>

lemma pass_exhausted:
  "\<not> ra < 5 \<Longrightarrow>
     withLocalApp_loop (Suc n) polls E op host ra s =
       Some (Inl (JsError ''failed to access the local app'' None), ra, s)"
  by (simp add: Let_def)

lemma pass_blocked:
  "ra < 5 \<Longrightarrow>
   withLock polls E (uri_authority E host)
     (ensureLocalApp E host (''config/'' @ uri_authority E host)
        (''installation/'' @ uri_authority E host)) slowLockTimeout s = None \<Longrightarrow>
   withLocalApp_loop (Suc n) polls E op host ra s = None"
  by (simp add: Let_def)


lemma pass_returned:
  "ra < 5 \<Longrightarrow>
   withLock polls E (uri_authority E host)
     (ensureLocalApp E host (''config/'' @ uri_authority E host)
        (''installation/'' @ uri_authority E host)) slowLockTimeout s = Some (Inr config, s1) \<Longrightarrow>
   op (tick s1) config = Inr result \<Longrightarrow>
   withLocalApp_loop (Suc n) polls E op host ra s =
     Some (Inr result, ra, await E 0 (perform (Call config) s1))"
  by (simp add: Let_def)

lemma pass_retry:
  "ra < 5 \<Longrightarrow>
   withLock polls E (uri_authority E host)
     (ensureLocalApp E host (''config/'' @ uri_authority E host)
        (''installation/'' @ uri_authority E host)) slowLockTimeout s = Some (Inr config, s1) \<Longrightarrow>
   op (tick s1) config = Inl e \<Longrightarrow>
   kill0 E (tick s1 + 1) (pid config) = None \<Longrightarrow>
   code e = Some Unavailable \<or> code e = Some Unknown \<Longrightarrow>
   withLocalApp_loop (Suc n) polls E op host ra s =
     withLocalApp_loop n polls E op host ra
       (await E 1000 (appendLine RetryingAfterDelay (appendLine (ApiNotReady (pid config) e)
          (perform (Probe (pid config)) (await E 0 (perform (Call config) s1))))))"
  by (simp add: Let_def)


lemma pass_dead:
  "ra < 5 \<Longrightarrow>
   withLock polls E (uri_authority E host)
     (ensureLocalApp E host (''config/'' @ uri_authority E host)
        (''installation/'' @ uri_authority E host)) slowLockTimeout s = Some (Inr config, s1) \<Longrightarrow>
   op (tick s1) config = Inl e \<Longrightarrow>
   kill0 E (tick s1 + 1) (pid config) = Some e2 \<Longrightarrow>
   withLocalApp_loop (Suc n) polls E op host ra s =
     (case withLock polls E (uri_authority E host)
             (clearConfig E (''config/'' @ uri_authority E host) config) fastLockTimeout
             (appendLine Restarting (appendLine (NotRunning (pid config) e2)
                (appendLine (FailedToAccess e)
                   (perform (Probe (pid config)) (await E 0 (perform (Call config) s1)))))) of
        None \<Rightarrow> None
      | Some (Inl e3, s5) \<Rightarrow> Some (Inl e3, ra, s5)
      | Some (Inr u, s5) \<Rightarrow> withLocalApp_loop n polls E op host (ra + 1) s5)"
  by (simp add: Let_def)

declare withLocalApp_loop.simps [simp del]


subsection \<open>Passes in the concrete environments\<close>

lemma cached_provision:
  assumes "globalState s = globalState state_cached" and "E = env0 \<or> E = env_dead"
  shows "\<exists>s1. withLock (Suc 0) E ''gitpod.io''
           (ensureLocalApp E ''https://gitpod.io'' ''config/gitpod.io'' ''installation/gitpod.io'')
           slowLockTimeout s = Some (Inr config0, s1) \<and>
         globalState s1 = globalState state_cached \<and> tick s1 = tick s + 4 \<and>
         lockCount s1 = lockCount s + 1 \<and> clock s1 = clock s + 150 \<and>
         effects s1 = effects s @ [Fetch ''https://gitpod.io/static/bin/gitpod-local-companion-linux'']"
  using assms(2,1)
  by (elim disjE)
    (simp_all add: env_dead_def withLock_unfold lockPrefix_def acquire_poll_def await_def
      update_def appendLine_def perform_def memento_get_def memento_update_def
      updateTimeout_def throwIfCancelled_def Let_def ensureLocalApp_def
      ensureLocalApp_download_def ensureLocalApp_upgrade_def downloadLocalApp_def
      downloadUri_def env0_def state_cached_def state0_def installation0_def config0_def)

lemma installed_provision:
  assumes "globalState s = globalState state_installed"
  shows "\<exists>s1. withLock (Suc 0) env_dead ''gitpod.io''
           (ensureLocalApp env_dead ''https://gitpod.io'' ''config/gitpod.io'' ''installation/gitpod.io'')
           slowLockTimeout s = Some (Inr config0, s1) \<and>
         globalState s1 = globalState state_cached \<and>
         lockCount s1 = lockCount s + 1 \<and> tick s1 = tick s + 9"
  using assms
  by (simp add: withLock_unfold lockPrefix_def acquire_poll_def await_def update_def
      appendLine_def perform_def memento_get_def memento_update_def updateTimeout_def
      throwIfCancelled_def Let_def ensureLocalApp_def ensureLocalApp_download_def
      ensureLocalApp_upgrade_def ensureLocalApp_check_def ensureLocalApp_install_def
      ensureLocalApp_start_def startLocalApp_def startLocalApp_try_def downloadLocalApp_def
      downloadUri_def env_dead_def env0_def state_cached_def state_installed_def state0_def
      installation0_def config0_def)

lemma cached_clear:
  assumes "globalState s = globalState state_cached"
  shows "\<exists>s5. withLock (Suc 0) env_dead ''gitpod.io''
           (clearConfig env_dead ''config/gitpod.io'' config0) fastLockTimeout s
             = Some (Inr (), s5) \<and>
         globalState s5 = globalState state_installed \<and> tick s5 = tick s + 4"
  using assms
  by (simp add: withLock_unfold lockPrefix_def acquire_poll_def await_def update_def
      appendLine_def memento_get_def memento_update_def updateTimeout_def Let_def
      clearConfig_def env_dead_def env0_def state_cached_def state_installed_def state0_def
      installation0_def config0_def)



lemma retry_pass:
  assumes "globalState s = globalState state_cached" and "ra < 5" and "tick s + 4 < ready"
  shows "\<exists>s2. withLocalApp_loop (Suc n) (Suc 0) env0 (op_flaky ready) ''https://gitpod.io'' ra s
           = withLocalApp_loop n (Suc 0) env0 (op_flaky ready) ''https://gitpod.io'' ra s2 \<and>
         globalState s2 = globalState state_cached \<and> tick s2 = tick s + 6 \<and>
         lockCount s2 = lockCount s + 1 \<and>
         count_list (effects s2) (Call config0) = count_list (effects s) (Call config0) + 1"
proof -
  have auth: "uri_authority env0 ''https://gitpod.io'' = ''gitpod.io''"
    by (simp add: env0_def)
  from cached_provision [OF assms(1), of env0] obtain s1 where
    prov: "withLock (Suc 0) env0 ''gitpod.io''
           (ensureLocalApp env0 ''https://gitpod.io'' ''config/gitpod.io'' ''installation/gitpod.io'')
           slowLockTimeout s = Some (Inr config0, s1)"
    and s1: "globalState s1 = globalState state_cached" "tick s1 = tick s + 4"
      "lockCount s1 = lockCount s + 1"
      "effects s1 = effects s
         @ [Fetch ''https://gitpod.io/static/bin/gitpod-local-companion-linux'']"
    by blast
  let ?e = "JsError ''not ready'' (Some Unavailable)"
  let ?s2 = "await env0 1000 (appendLine RetryingAfterDelay (appendLine (ApiNotReady (pid config0) ?e)
          (perform (Probe (pid config0)) (await env0 0 (perform (Call config0) s1)))))"
  have "withLocalApp_loop (Suc n) (Suc 0) env0 (op_flaky ready) ''https://gitpod.io'' ra s
           = withLocalApp_loop n (Suc 0) env0 (op_flaky ready) ''https://gitpod.io'' ra ?s2"
    using pass_retry [where op = "op_flaky ready" and n = n and E = env0 and e = ?e
        and host = "''https://gitpod.io''" and polls = "Suc 0" and config = config0,
        OF assms(2), of s s1] prov s1 assms(3)
    by (simp add: auth op_flaky_def) (simp add: env0_def)
  moreover have "globalState ?s2 = globalState state_cached" "tick ?s2 = tick s + 6"
    "lockCount ?s2 = lockCount s + 1"
    "count_list (effects ?s2) (Call config0) = count_list (effects s) (Call config0) + 1"
    using s1 by (simp_all add: env0_def)
  ultimately show ?thesis by blast
qed

lemma ready_pass:
  assumes "globalState s = globalState state_cached" and "ra < 5" and "\<not> tick s + 4 < ready"
  shows "\<exists>s'. withLocalApp_loop (Suc n) (Suc 0) env0 (op_flaky ready) ''https://gitpod.io'' ra s
           = Some (Inr 42, ra, s') \<and> lockCount s' = lockCount s + 1 \<and>
         count_list (effects s') (Call config0) = count_list (effects s) (Call config0) + 1"
proof -
  have auth: "uri_authority env0 ''https://gitpod.io'' = ''gitpod.io''"
    by (simp add: env0_def)
  from cached_provision [OF assms(1), of env0] obtain s1 where
    prov: "withLock (Suc 0) env0 ''gitpod.io''
           (ensureLocalApp env0 ''https://gitpod.io'' ''config/gitpod.io'' ''installation/gitpod.io'')
           slowLockTimeout s = Some (Inr config0, s1)"
    and s1: "tick s1 = tick s + 4" "lockCount s1 = lockCount s + 1"
      "effects s1 = effects s
         @ [Fetch ''https://gitpod.io/static/bin/gitpod-local-companion-linux'']"
    by blast
  have "withLocalApp_loop (Suc n) (Suc 0) env0 (op_flaky ready) ''https://gitpod.io'' ra s
           = Some (Inr 42, ra, await env0 0 (perform (Call config0) s1))"
    using pass_returned [where op = "op_flaky ready" and n = n and E = env0
        and host = "''https://gitpod.io''" and polls = "Suc 0" and config = config0
        and result = 42, OF assms(2), of s s1] prov s1 assms(3)
    by (simp add: auth op_flaky_def)
  with s1 show ?thesis by simp
qed

lemma flaky_run:
  "globalState s = globalState state_cached \<Longrightarrow> ra < 5 \<Longrightarrow> tick s + 6 * k + 4 = ready \<Longrightarrow>
     \<exists>s'. withLocalApp_loop (Suc k) (Suc 0) env0 (op_flaky ready) ''https://gitpod.io'' ra s
             = Some (Inr 42, ra, s') \<and> lockCount s' = lockCount s + Suc k \<and>
           count_list (effects s') (Call config0)
             = count_list (effects s) (Call config0) + Suc k"
proof (induction k arbitrary: s)
  case 0
  then show ?case using ready_pass [of s ra ready 0] by simp
next
  case (Suc k)
  then have "tick s + 4 < ready" by simp
  from retry_pass [OF Suc.prems(1,2) this, of "Suc k"] obtain s2 where
    step: "withLocalApp_loop (Suc (Suc k)) (Suc 0) env0 (op_flaky ready) ''https://gitpod.io'' ra s
           = withLocalApp_loop (Suc k) (Suc 0) env0 (op_flaky ready) ''https://gitpod.io'' ra s2"
    and s2: "globalState s2 = globalState state_cached" "tick s2 = tick s + 6"
      "lockCount s2 = lockCount s + 1"
      "count_list (effects s2) (Call config0) = count_list (effects s) (Call config0) + 1"
    by blast
  from Suc.prems(3) s2 have "tick s2 + 6 * k + 4 = ready" by simp
  from Suc.IH [OF s2(1) Suc.prems(2) this] step s2 show ?case by simp
qed

subsection \<open>The restart budget\<close>



subsection \<open>Retrying while the local app is alive\<close>

text \<open>
  C2, as amended. When the operation fails with \<^verbatim>\<open>Unavailable\<close> or \<^verbatim>\<open>Unknown\<close> and the probe
  finds the process alive, the pass ends in \<^verbatim>\<open>continue\<close> after a wait of at least 1000 ms:
  the call goes on as a whole new pass of the loop, which must take the lock and run
  \<^verbatim>\<open>ensureLocalApp\<close> again before it calls the operation (a pass that does not get the lock
  does not get any further), with \<^verbatim>\<open>restartAttempts\<close> as it was and no restart logged.
  The pass that ends has taken one lock; its retry writes nothing to the store, and it has
  called the operation once and probed once. Nothing counts these retries.
\<close>

theorem withLocalApp_unreachable_retry:
  assumes "restartAttempts < 5"
    and "withLock polls E (uri_authority E host)
           (ensureLocalApp E host (''config/'' @ uri_authority E host)
              (''installation/'' @ uri_authority E host)) slowLockTimeout s
         = Some (Inr config, s1)"
    and "op (tick s1) config = Inl e"
    and "kill0 E (tick s1 + 1) (pid config) = None"
    and "code e = Some Unavailable \<or> code e = Some Unknown"
  shows "\<exists>s2. withLocalApp_loop (Suc n) polls E op host restartAttempts s
                = withLocalApp_loop n polls E op host restartAttempts s2 \<and>
              clock s1 + 1000 \<le> clock s2 \<and> tick s2 = tick s1 + 2 \<and>
              globalState s2 = interfere E (tick s1 + 1) (interfere E (tick s1) (globalState s1)) \<and>
              lockCount s2 = lockCount s + 1 \<and> restarts s2 = restarts s \<and>
              effects s2 = effects s1 @ [Call config, Probe (pid config)] \<and>
              (withLock polls E (uri_authority E host)
                 (ensureLocalApp E host (''config/'' @ uri_authority E host)
                    (''installation/'' @ uri_authority E host)) slowLockTimeout s2 = None \<longrightarrow>
               withLocalApp_loop (Suc m) polls E op host restartAttempts s2 = None)"
proof -
  let ?s2 = "await E 1000 (appendLine RetryingAfterDelay (appendLine (ApiNotReady (pid config) e)
          (perform (Probe (pid config)) (await E 0 (perform (Call config) s1)))))"
  from withLock_restarts [OF assms(2)] ensureLocalApp_restarts
  have "restarts s1 = restarts s" by simp
  moreover from withLock_lockCount [OF assms(2)] ensureLocalApp_lockCount
  have "lockCount s1 = lockCount s + 1" by simp
  ultimately have "clock s1 + 1000 \<le> clock ?s2 \<and> tick ?s2 = tick s1 + 2 \<and>
              globalState ?s2 = interfere E (tick s1 + 1) (interfere E (tick s1) (globalState s1)) \<and>
              lockCount ?s2 = lockCount s + 1 \<and> restarts ?s2 = restarts s \<and>
              effects ?s2 = effects s1 @ [Call config, Probe (pid config)]"
    by simp
  moreover have "withLock polls E (uri_authority E host)
                 (ensureLocalApp E host (''config/'' @ uri_authority E host)
                    (''installation/'' @ uri_authority E host)) slowLockTimeout ?s2 = None \<longrightarrow>
               withLocalApp_loop (Suc m) polls E op host restartAttempts ?s2 = None"
    using pass_blocked [OF assms(1), where op = op] by blast
  moreover note pass_retry [where op = op and n = n, OF assms]
  ultimately show ?thesis
    by (intro exI [of _ ?s2]) simp
qed

text \<open>Two failures with \<^verbatim>\<open>Unavailable\<close> while the local app is alive, then a success: the
  call returns the result of the third attempt, with the counter still 0.\<close>

theorem withLocalApp_unreachable_retry_witness:
  "\<exists>s'. withLocalApp (Suc (Suc (Suc 0))) (Suc 0) env0 (op_flaky 16) ''https://gitpod.io''
           state_cached = Some (Inr 42, 0, s')"
proof -
  have auth: "uri_authority env0 ''https://gitpod.io'' = ''gitpod.io''"
    by (simp add: env0_def)
  from cached_provision [of state_cached env0] obtain s1 where
    prov: "withLock (Suc 0) env0 ''gitpod.io''
           (ensureLocalApp env0 ''https://gitpod.io'' ''config/gitpod.io'' ''installation/gitpod.io'')
           slowLockTimeout state_cached = Some (Inr config0, s1)"
    and s1: "globalState s1 = globalState state_cached" "tick s1 = tick state_cached + 4"
    by blast
  have t1: "tick s1 = 4" using s1 by (simp add: state_cached_def state0_def)
  have op: "op_flaky 16 (tick s1) config0 = Inl (JsError ''not ready'' (Some Unavailable))"
    using t1 by (simp add: op_flaky_def)
  have alive: "kill0 env0 (tick s1 + 1) (pid config0) = None" by (simp add: env0_def)
  have prov': "withLock (Suc 0) env0 (uri_authority env0 ''https://gitpod.io'')
           (ensureLocalApp env0 ''https://gitpod.io''
              (''config/'' @ uri_authority env0 ''https://gitpod.io'')
              (''installation/'' @ uri_authority env0 ''https://gitpod.io''))
           slowLockTimeout state_cached = Some (Inr config0, s1)"
    using prov by (simp add: auth)
  have unav: "code (JsError ''not ready'' (Some Unavailable)) = Some Unavailable \<or>
      code (JsError ''not ready'' (Some Unavailable)) = Some Unknown" by simp
  have "(0::nat) < 5" by simp
  from withLocalApp_unreachable_retry [where op = "op_flaky 16" and n = "Suc (Suc 0)",
      OF this prov' op alive unav]
  obtain s2 :: state where
    step: "withLocalApp_loop (Suc (Suc (Suc 0))) (Suc 0) env0 (op_flaky 16) ''https://gitpod.io'' 0
             state_cached
           = withLocalApp_loop (Suc (Suc 0)) (Suc 0) env0 (op_flaky 16) ''https://gitpod.io'' 0 s2"
    and s2: "tick s2 = tick s1 + 2"
      "globalState s2 = interfere env0 (tick s1 + 1) (interfere env0 (tick s1) (globalState s1))"
    by auto
  from s2 s1 t1 have g2: "globalState s2 = globalState state_cached" and t2: "tick s2 + 6 * 1 + 4 = 16"
    by (simp_all add: env0_def)
  from flaky_run [OF g2 _ t2, of 0] step show ?thesis
    by (auto simp add: withLocalApp_def)
qed

text \<open>
  C2 as stated has the retries bounded by the budget of attempts and made without taking
  the lock again. In \<open>seven_attempts\<close> the operation fails six times in this way and the
  call returns the result of the seventh attempt with the counter at 0: the operation has
  been called 7 times, and \<^verbatim>\<open>lockCount\<close> stands at 7, one lock taken for each attempt.
\<close>

theorem withLocalApp_retry_counterexample:
  "seven_attempts \<noteq> None \<and>
   fst (the seven_attempts) = Inr 42 \<and>
   fst (snd (the seven_attempts)) = 0 \<and>
   lockCount (snd (snd (the seven_attempts))) = 7 \<and>
   count_list (effects (snd (snd (the seven_attempts)))) (Call config0) = 7"
proof -
  have "tick state_cached + 6 * 6 + 4 = 40" "lockCount state_cached = 0"
    "count_list (effects state_cached) (Call config0) = 0"
    by (simp_all add: state_cached_def state0_def)
  with flaky_run [of state_cached 0 6 40] show ?thesis
    by (auto simp add: seven_attempts_def withLocalApp_def numeral_eq_Suc)
qed

subsection \<open>Restarting a dead local app\<close>

text \<open>
  C9. When the operation fails and the probe finds the process dead, the pass takes the
  lock of the host once more, with the timeout \<open>fastLockTimeout\<close>, and runs \<open>clearConfig\<close>
  in a state whose store echoes the value of that lock: when the store still holds the
  config that failed (the same value, field by field), the key is cleared, and when it
  holds anything else or nothing the store is left as it is. The call then goes on with
  the next pass, \<^verbatim>\<open>restartAttempts\<close> one higher, from the state in which the lock was
  released. So when this was the fifth restart the call fails there and then, with the
  counter at 5; and when it was an earlier one and the next pass gets a config on which the
  operation returns, the call returns that result, with the counter one higher than before
  the dead pass.
\<close>

theorem withLocalApp_dead_restart:
  assumes "restartAttempts < 5"
    and "withLock polls E (uri_authority E host)
           (ensureLocalApp E host (''config/'' @ uri_authority E host)
              (''installation/'' @ uri_authority E host)) slowLockTimeout s
         = Some (Inr config, s1)"
    and "op (tick s1) config = Inl e"
    and "kill0 E (tick s1 + 1) (pid config) = Some e2"
    and "withLock polls E (uri_authority E host)
           (clearConfig E (''config/'' @ uri_authority E host) config) fastLockTimeout
           (appendLine Restarting (appendLine (NotRunning (pid config) e2)
              (appendLine (FailedToAccess e)
                 (perform (Probe (pid config)) (await E 0 (perform (Call config) s1))))))
         = Some (res, s5)"
  shows "withLocalApp_loop (Suc n) polls E op host restartAttempts s
           = withLocalApp_loop n polls E op host (restartAttempts + 1) s5 \<and>
         (\<exists>s3. value_of (memento_get (globalState s3) (lockPrefix @ uri_authority E host))
                  = Some (sessionId E @ ''/'' @ show_nat (lockCount s1)) \<and>
               globalState s5 =
                 interfere E (tick (snd (clearConfig E (''config/'' @ uri_authority E host) config s3)))
                   (memento_update (lockPrefix @ uri_authority E host) None
                      (globalState (snd (clearConfig E (''config/'' @ uri_authority E host) config s3))))) \<and>
         globalState (snd (clearConfig E configKey config x)) =
           (if memento_get (globalState x) configKey = Some (JConfig config)
            then interfere E (tick x) (memento_update configKey None (globalState x))
            else globalState x) \<and>
         (restartAttempts = 4 \<longrightarrow>
            withLocalApp_loop (Suc (Suc n)) polls E op host restartAttempts s
              = Some (Inl (JsError ''failed to access the local app'' None), 5, s5)) \<and>
         (restartAttempts < 4 \<and>
          withLock polls E (uri_authority E host)
            (ensureLocalApp E host (''config/'' @ uri_authority E host)
               (''installation/'' @ uri_authority E host)) slowLockTimeout s5
            = Some (Inr config', s6) \<and>
          op (tick s6) config' = Inr result \<longrightarrow>
            withLocalApp_loop (Suc (Suc n)) polls E op host restartAttempts s
              = Some (Inr result, restartAttempts + 1, await E 0 (perform (Call config') s6)))"
proof -
  from withLock_run [OF assms(5)] obtain s3 where
    res: "res = fst (clearConfig E (''config/'' @ uri_authority E host) config s3)"
    and s5: "s5 = await E 0 (update (lockPrefix @ uri_authority E host) None
               (appendLine (ReleasedLock (uri_authority E host))
                  ((snd (clearConfig E (''config/'' @ uri_authority E host) config s3))\<lparr>timer := None\<rparr>)))"
    and held: "value_of (memento_get (globalState s3) (lockPrefix @ uri_authority E host))
                  = Some (sessionId E @ ''/'' @ show_nat (lockCount s1))"
    by auto
  from res have r: "res = Inr ()" by (simp add: clearConfig_def)
  have step: "withLocalApp_loop (Suc k) polls E op host restartAttempts s
           = withLocalApp_loop k polls E op host (restartAttempts + 1) s5" for k
    using pass_dead [where op = op and n = k, OF assms(1-4)] assms(5) r by simp
  have a: "withLocalApp_loop (Suc n) polls E op host restartAttempts s
           = withLocalApp_loop n polls E op host (restartAttempts + 1) s5"
    by (rule step)
  from s5 held
  have b: "\<exists>s3. value_of (memento_get (globalState s3) (lockPrefix @ uri_authority E host))
                  = Some (sessionId E @ ''/'' @ show_nat (lockCount s1)) \<and>
               globalState s5 =
                 interfere E (tick (snd (clearConfig E (''config/'' @ uri_authority E host) config s3)))
                   (memento_update (lockPrefix @ uri_authority E host) None
                      (globalState (snd (clearConfig E (''config/'' @ uri_authority E host) config s3))))"
    by (intro exI [of _ s3]) simp
  have c: "globalState (snd (clearConfig E configKey config x)) =
           (if memento_get (globalState x) configKey = Some (JConfig config)
            then interfere E (tick x) (memento_update configKey None (globalState x))
            else globalState x)"
    by (simp add: clearConfig_def)
  have d: "restartAttempts = 4 \<longrightarrow>
            withLocalApp_loop (Suc (Suc n)) polls E op host restartAttempts s
              = Some (Inl (JsError ''failed to access the local app'' None), 5, s5)"
  proof
    assume "restartAttempts = 4"
    with step [of "Suc n"] pass_exhausted [of 5 n polls E op host s5]
    show "withLocalApp_loop (Suc (Suc n)) polls E op host restartAttempts s
              = Some (Inl (JsError ''failed to access the local app'' None), 5, s5)"
      by simp
  qed
  have e: "restartAttempts < 4 \<and>
          withLock polls E (uri_authority E host)
            (ensureLocalApp E host (''config/'' @ uri_authority E host)
               (''installation/'' @ uri_authority E host)) slowLockTimeout s5
            = Some (Inr config', s6) \<and>
          op (tick s6) config' = Inr result \<longrightarrow>
            withLocalApp_loop (Suc (Suc n)) polls E op host restartAttempts s
              = Some (Inr result, restartAttempts + 1, await E 0 (perform (Call config') s6))"
  proof (intro impI, elim conjE)
    assume lt: "restartAttempts < 4"
      and prov: "withLock polls E (uri_authority E host)
            (ensureLocalApp E host (''config/'' @ uri_authority E host)
               (''installation/'' @ uri_authority E host)) slowLockTimeout s5
            = Some (Inr config', s6)"
      and ret: "op (tick s6) config' = Inr result"
    from lt have "restartAttempts + 1 < 5" by simp
    from pass_returned [where op = op and n = n, OF this prov ret] step [of "Suc n"]
    show "withLocalApp_loop (Suc (Suc n)) polls E op host restartAttempts s
              = Some (Inr result, restartAttempts + 1, await E 0 (perform (Call config') s6))"
      by simp
  qed
  from a b c d e show ?thesis by (intro conjI)
qed

text \<open>
  In \<open>env_dead\<close>, from \<open>state_installed\<close>. First a call whose operation is not ready at its
  first attempt: the process is found dead, the config is cleared, the local app is started
  again, and the second attempt returns 42 with the counter at 1 and the new config in the
  store. Then a dead pass that starts with the counter at 4: the call fails with the counter
  at 5, and the store it leaves has the installation and no config. Last, \<open>clearConfig\<close> on
  the store that holds the failed config, and on the store in which the config has been
  replaced.
\<close>

theorem withLocalApp_dead_restart_witness:
  "(\<exists>s'. withLocalApp (Suc (Suc 0)) (Suc 0) env_dead (op_flaky 20) ''https://gitpod.io''
            state_installed = Some (Inr 42, 1, s') \<and>
         memento_get (globalState s') ''config/gitpod.io'' = Some (JConfig config0)) \<and>
   (\<exists>s5. withLocalApp_loop (Suc (Suc 0)) (Suc 0) env_dead op_down ''https://gitpod.io'' 4
            state_installed
          = Some (Inl (JsError ''failed to access the local app'' None), 5, s5) \<and>
         memento_get (globalState s5) ''config/gitpod.io'' = None \<and>
         memento_get (globalState s5) ''installation/gitpod.io'' = Some (JInst installation0)) \<and>
   globalState (snd (clearConfig env_dead ''config/gitpod.io'' config0 state_cached))
     = globalState state_installed \<and>
   globalState (snd (clearConfig env_dead ''config/gitpod.io'' config0 state_refreshed))
     = globalState state_refreshed"
proof -
  have auth: "uri_authority env_dead ''https://gitpod.io'' = ''gitpod.io''"
    by (simp add: env_dead_def env0_def)
  let ?e2 = "JsError ''ESRCH'' None"
  from installed_provision [of state_installed] obtain s1 where
    prov: "withLock (Suc 0) env_dead ''gitpod.io''
           (ensureLocalApp env_dead ''https://gitpod.io'' ''config/gitpod.io'' ''installation/gitpod.io'')
           slowLockTimeout state_installed = Some (Inr config0, s1)"
    and g1: "globalState s1 = globalState state_cached"
    and t1: "tick s1 = tick state_installed + 9"
    by blast
  have prov': "withLock (Suc 0) env_dead (uri_authority env_dead ''https://gitpod.io'')
           (ensureLocalApp env_dead ''https://gitpod.io''
              (''config/'' @ uri_authority env_dead ''https://gitpod.io'')
              (''installation/'' @ uri_authority env_dead ''https://gitpod.io''))
           slowLockTimeout state_installed = Some (Inr config0, s1)"
    using prov by (simp add: auth)
  have dead: "kill0 env_dead (tick s1 + 1) (pid config0) = Some ?e2" by (simp add: env_dead_def)
  have t1': "tick s1 = 9" using t1 by (simp add: state_installed_def state0_def)

  let ?e = "JsError ''not ready'' (Some Unavailable)"
  let ?s4 = "appendLine Restarting (appendLine (NotRunning (pid config0) ?e2)
                (appendLine (FailedToAccess ?e)
                   (perform (Probe (pid config0)) (await env_dead 0 (perform (Call config0) s1)))))"
  have g4: "globalState ?s4 = globalState state_cached"
    using g1 by (simp add: env_dead_def env0_def)
  from cached_clear [OF g4] obtain s5 where
    clear: "withLock (Suc 0) env_dead ''gitpod.io''
           (clearConfig env_dead ''config/gitpod.io'' config0) fastLockTimeout ?s4
             = Some (Inr (), s5)"
    and g5: "globalState s5 = globalState state_installed"
    and t5: "tick s5 = tick ?s4 + 4"
    by blast
  have clear': "withLock (Suc 0) env_dead (uri_authority env_dead ''https://gitpod.io'')
           (clearConfig env_dead (''config/'' @ uri_authority env_dead ''https://gitpod.io'') config0)
           fastLockTimeout ?s4 = Some (Inr (), s5)"
    using clear by (simp add: auth)
  from installed_provision [OF g5] obtain s6 where
    prov6: "withLock (Suc 0) env_dead ''gitpod.io''
           (ensureLocalApp env_dead ''https://gitpod.io'' ''config/gitpod.io'' ''installation/gitpod.io'')
           slowLockTimeout s5 = Some (Inr config0, s6)"
    and g6: "globalState s6 = globalState state_cached"
    and t6: "tick s6 = tick s5 + 9"
    by blast
  have prov6': "withLock (Suc 0) env_dead (uri_authority env_dead ''https://gitpod.io'')
           (ensureLocalApp env_dead ''https://gitpod.io''
              (''config/'' @ uri_authority env_dead ''https://gitpod.io'')
              (''installation/'' @ uri_authority env_dead ''https://gitpod.io''))
           slowLockTimeout s5 = Some (Inr config0, s6)"
    using prov6 by (simp add: auth)
  have t6': "tick s6 = 23" using t6 t5 t1' by simp
  have op1: "op_flaky 20 (tick s1) config0 = Inl ?e" using t1' by (simp add: op_flaky_def)
  have op2: "op_flaky 20 (tick s6) config0 = Inr 42" using t6' by (simp add: op_flaky_def)
  have lt0: "(0::nat) < 5" by simp
  note w = withLocalApp_dead_restart [where op = "op_flaky 20" and n = 0,
      OF lt0 prov' op1 dead clear']
  from w [THEN conjunct2, THEN conjunct2, THEN conjunct2, THEN conjunct2,
      of config0 s6 42] prov6' op2
  have run1: "withLocalApp (Suc (Suc 0)) (Suc 0) env_dead (op_flaky 20) ''https://gitpod.io''
            state_installed
          = Some (Inr 42, 1, await env_dead 0 (perform (Call config0) s6))"
    by (simp add: withLocalApp_def)
  have st1: "memento_get (globalState (await env_dead 0 (perform (Call config0) s6)))
               ''config/gitpod.io'' = Some (JConfig config0)"
    using g6 by (simp add: env_dead_def env0_def state_cached_def state0_def memento_get_def)

  let ?d = "JsError ''connection refused'' (Some Unavailable)"
  let ?s4' = "appendLine Restarting (appendLine (NotRunning (pid config0) ?e2)
                (appendLine (FailedToAccess ?d)
                   (perform (Probe (pid config0)) (await env_dead 0 (perform (Call config0) s1)))))"
  have g4': "globalState ?s4' = globalState state_cached"
    using g1 by (simp add: env_dead_def env0_def)
  from cached_clear [OF g4'] obtain s5' where
    clr: "withLock (Suc 0) env_dead ''gitpod.io''
           (clearConfig env_dead ''config/gitpod.io'' config0) fastLockTimeout ?s4'
             = Some (Inr (), s5')"
    and g5': "globalState s5' = globalState state_installed"
    by blast
  have clr': "withLock (Suc 0) env_dead (uri_authority env_dead ''https://gitpod.io'')
           (clearConfig env_dead (''config/'' @ uri_authority env_dead ''https://gitpod.io'') config0)
           fastLockTimeout ?s4' = Some (Inr (), s5')"
    using clr by (simp add: auth)
  have opd: "op_down (tick s1) config0 = Inl ?d" by (simp add: op_down_def)
  have lt4: "(4::nat) < 5" by simp
  note v = withLocalApp_dead_restart [where op = op_down and n = 0,
      OF lt4 prov' opd dead clr']
  from v [THEN conjunct2, THEN conjunct2, THEN conjunct2, THEN conjunct1]
  have run2: "withLocalApp_loop (Suc (Suc 0)) (Suc 0) env_dead op_down ''https://gitpod.io'' 4
            state_installed
          = Some (Inl (JsError ''failed to access the local app'' None), 5, s5')"
    by simp
  have st2: "memento_get (globalState s5') ''config/gitpod.io'' = None"
    "memento_get (globalState s5') ''installation/gitpod.io'' = Some (JInst installation0)"
    using g5' by (simp_all add: state_installed_def state0_def memento_get_def)

  from v [THEN conjunct2, THEN conjunct2, THEN conjunct1, of "''config/gitpod.io''" state_cached]
  have b: "globalState (snd (clearConfig env_dead ''config/gitpod.io'' config0 state_cached))
     = globalState state_installed"
    by (simp add: state_cached_def state_installed_def state0_def memento_get_def
        memento_update_def env_dead_def env0_def)
  from v [THEN conjunct2, THEN conjunct2, THEN conjunct1, of "''config/gitpod.io''" state_refreshed]
  have c: "globalState (snd (clearConfig env_dead ''config/gitpod.io'' config0 state_refreshed))
     = globalState state_refreshed"
    by (simp add: state_refreshed_def state0_def memento_get_def config0_def)
  from run1 st1 run2 st2 b c show ?thesis by blast
qed

subsection \<open>The cached config\<close>

text \<open>
  C10. When the store holds a config for the host after the download has settled, and
  nothing asks for an upgrade (no installation is recorded, or the download failed, or it
  carries no tag, or its tag is the recorded one), \<^verbatim>\<open>ensureLocalApp\<close> returns that config as
  it is: all it did was the fetch, so it neither probed the process nor checked the
  installation nor spawned anything, and it wrote nothing to the store. And a pass of
  \<^verbatim>\<open>withLocalApp\<close> whose operation returns ends there, the call of the operation its only
  effect: the process is probed only when the operation has failed.
\<close>

theorem ensureLocalApp_cached_config:
  assumes "ensureLocalApp_download E host s = (download, s1)"
    and "as_config (memento_get (globalState s1) configKey) = Some config"
    and "case as_installation (memento_get (globalState s1) installationKey) of
           None \<Rightarrow> True
         | Some inst \<Rightarrow>
             (case download of
                Inl e \<Rightarrow> True
              | Inr r \<Rightarrow> resp_etag r = None \<or> resp_etag r = Some [] \<or> resp_etag r = etag inst)"
  shows "ensureLocalApp E host configKey installationKey s = (Inr config, s1) \<and>
         effects s1 = effects s @ [Fetch (downloadUri E host)] \<and>
         globalState s1 = interfere E (tick s) (globalState s) \<and>
         (restartAttempts < 5 \<and>
          withLock polls E (uri_authority E h)
            (ensureLocalApp E h (''config/'' @ uri_authority E h)
               (''installation/'' @ uri_authority E h)) slowLockTimeout x = Some (Inr c, x1) \<and>
          op (tick x1) c = Inr result \<longrightarrow>
            withLocalApp_loop (Suc n) polls E op h restartAttempts x
              = Some (Inr result, restartAttempts, await E 0 (perform (Call c) x1)))"
proof -
  from assms(1) have s1: "s1 = await E 0 (perform (Fetch (downloadUri E host))
      (appendLine (Fetching (downloadUri E host)) s))"
    using ensureLocalApp_download_state [of E host s] by simp
  from assms have "ensureLocalApp E host configKey installationKey s = (Inr config, s1)"
    by (simp add: ensureLocalApp_def no_upgrade)
  with s1 pass_returned [where op = op and n = n and E = E and host = h and ra = restartAttempts
      and s = x and ?s1.0 = x1 and config = c and result = result and polls = polls]
  show ?thesis by simp
qed

text \<open>In \<open>env_dead\<close> a probe would find the process dead; the cached config is returned all
  the same, after the fetch alone, and a pass whose operation returns never probes.\<close>

theorem ensureLocalApp_cached_config_witness:
  "ensureLocalApp env_dead ''https://gitpod.io'' ''config/gitpod.io'' ''installation/gitpod.io''
     state_cached
   = (Inr config0, snd (ensureLocalApp_download env_dead ''https://gitpod.io'' state_cached)) \<and>
   effects (snd (ensureLocalApp_download env_dead ''https://gitpod.io'' state_cached))
     = [Fetch ''https://gitpod.io/static/bin/gitpod-local-companion-linux''] \<and>
   kill0 env_dead 0 (pid config0) = Some (JsError ''ESRCH'' None) \<and>
   (\<exists>s'. withLocalApp_loop (Suc 0) (Suc 0) env_dead (op_flaky 0) ''https://gitpod.io'' 0
            state_cached = Some (Inr 42, 0, s') \<and>
         effects s' = [Fetch ''https://gitpod.io/static/bin/gitpod-local-companion-linux'',
                       Call config0])"
proof -
  let ?d = "ensureLocalApp_download env_dead ''https://gitpod.io'' state_cached"
  have d: "?d = (fst ?d, snd ?d)" by simp
  have g: "globalState (snd ?d) = globalState state_cached"
    by (simp add: ensureLocalApp_download_state env_dead_def env0_def)
  have r: "fst ?d = Inr \<lparr>resp_ok = True, resp_status = 200, resp_statusText = ''OK'',
                          resp_etag = Some ''v1'',
                          resp_url = ''https://gitpod.io/static/bin/gitpod-local-companion-linux''\<rparr>"
    by (simp add: ensureLocalApp_download_def downloadLocalApp_def downloadUri_def Let_def
        throwIfCancelled_def env_dead_def env0_def state_cached_def state0_def await_def
        perform_def appendLine_def)
  have c: "as_config (memento_get (globalState (snd ?d)) ''config/gitpod.io'') = Some config0"
    by (simp only: g) (simp add: state_cached_def state0_def memento_get_def)
  have i: "case as_installation (memento_get (globalState (snd ?d)) ''installation/gitpod.io'') of
           None \<Rightarrow> True
         | Some inst \<Rightarrow>
             (case fst ?d of
                Inl e \<Rightarrow> True
              | Inr r \<Rightarrow> resp_etag r = None \<or> resp_etag r = Some [] \<or> resp_etag r = etag inst)"
    by (simp only: g r) (simp add: state_cached_def state0_def memento_get_def installation0_def)
  have auth: "uri_authority env_dead ''https://gitpod.io'' = ''gitpod.io''"
    by (simp add: env_dead_def env0_def)
  from cached_provision [of state_cached env_dead] obtain x1 where
    prov: "withLock (Suc 0) env_dead ''gitpod.io''
           (ensureLocalApp env_dead ''https://gitpod.io'' ''config/gitpod.io'' ''installation/gitpod.io'')
           slowLockTimeout state_cached = Some (Inr config0, x1)"
    and fx: "effects x1 = effects state_cached
               @ [Fetch ''https://gitpod.io/static/bin/gitpod-local-companion-linux'']"
    by blast
  have prov': "withLock (Suc 0) env_dead (uri_authority env_dead ''https://gitpod.io'')
           (ensureLocalApp env_dead ''https://gitpod.io''
              (''config/'' @ uri_authority env_dead ''https://gitpod.io'')
              (''installation/'' @ uri_authority env_dead ''https://gitpod.io''))
           slowLockTimeout state_cached = Some (Inr config0, x1)"
    using prov by (simp add: auth)
  have op: "op_flaky 0 (tick x1) config0 = Inr 42" by (simp add: op_flaky_def)
  note w = ensureLocalApp_cached_config [OF d c i, where op = "op_flaky 0" and n = 0
      and restartAttempts = 0]
  from w [THEN conjunct2, THEN conjunct1]
  have "effects (snd ?d) = [Fetch ''https://gitpod.io/static/bin/gitpod-local-companion-linux'']"
    by (simp add: downloadUri_def env_dead_def env0_def state_cached_def state0_def)
  moreover have "kill0 env_dead 0 (pid config0) = Some (JsError ''ESRCH'' None)"
    by (simp add: env_dead_def)
  moreover from w [THEN conjunct2, THEN conjunct2, THEN conjunct2] prov' op
  have "withLocalApp_loop (Suc 0) (Suc 0) env_dead (op_flaky 0) ''https://gitpod.io'' 0
            state_cached = Some (Inr 42, 0, await env_dead 0 (perform (Call config0) x1))"
    by simp
  moreover have "effects (await env_dead 0 (perform (Call config0) x1))
       = [Fetch ''https://gitpod.io/static/bin/gitpod-local-companion-linux'', Call config0]"
    using fx by (simp add: state_cached_def state0_def)
  ultimately show ?thesis using w [THEN conjunct1] by blast
qed

subsection \<open>No second download\<close>

text \<open>
  C5. When the fetch answers with the tag that is recorded, the store holds an
  installation after the download has settled, and the installed file can be executed,
  \<^verbatim>\<open>ensureLocalApp\<close> streams no download to disk, whatever the status of the answer: the
  files streamed to are those from before the call. When no config is recorded and the
  call is not cancelled, it starts the local app from the recorded installation. (The
  request itself goes out on every call; it is what tells the tag.)
\<close>

theorem ensureLocalApp_no_redownload:
  assumes "fetch_result E (tick s) (downloadUri E host) = Inr r"
    and "s1 = snd (ensureLocalApp_download E host s)"
    and "as_installation (memento_get (globalState s1) installationKey) = Some inst"
    and "resp_etag r = etag inst"
    and "access E (tick s1) (path inst) = None"
  shows "streamed (effects (snd (ensureLocalApp E host configKey installationKey s)))
           = streamed (effects s) \<and>
         (as_config (memento_get (globalState s1) configKey) = None \<and>
          \<not> cancelled (await E 0 (perform (Access (path inst)) s1)) \<longrightarrow>
            ensureLocalApp E host configKey installationKey s =
              ensureLocalApp_start E host configKey inst
                (await E 0 (perform (Access (path inst)) s1)))"
proof -
  obtain download where d: "ensureLocalApp_download E host s = (download, s1)"
    and dl: "(\<exists>e. download = Inl e) \<or> download = Inr r"
    using ensureLocalApp_download_result [OF assms(1)] assms(2)
    by (cases "ensureLocalApp_download E host s") auto
  from assms(2) have s1: "s1 = await E 0 (perform (Fetch (downloadUri E host))
      (appendLine (Fetching (downloadUri E host)) s))"
    by (simp add: ensureLocalApp_download_state)
  then have fx: "streamed (effects s1) = streamed (effects s)" by simp
  have keep: "ensureLocalApp_upgrade E download config (Some inst) s1 = (config, Some inst, s1)"
    for config
    using assms(4) dl by (intro no_upgrade) auto
  let ?s3 = "await E 0 (perform (Access (path inst)) s1)"
  show ?thesis
  proof (cases "as_config (memento_get (globalState s1) configKey)")
    case (Some c)
    with d assms(3) keep fx show ?thesis
      by (simp add: ensureLocalApp_def)
  next
    case None
    show ?thesis
    proof (cases "cancelled ?s3")
      case True
      from installLocalApp_cancelled [OF True, of E r] obtain e where
        "fst (installLocalApp E r ?s3) = Inl e"
        and "streamed (effects (snd (installLocalApp E r ?s3))) = streamed (effects ?s3)"
        by blast
      with d dl assms(3,5) None keep fx True show ?thesis
        by (auto simp add: ensureLocalApp_def ensureLocalApp_check_def ensureLocalApp_install_def
            throwIfCancelled_def Let_def split: prod.splits sum.splits)
    next
      case False
      with d assms(3,5) None keep have "ensureLocalApp E host configKey installationKey s =
              ensureLocalApp_start E host configKey inst ?s3"
        by (simp add: ensureLocalApp_def ensureLocalApp_check_def ensureLocalApp_install_def
            throwIfCancelled_def Let_def)
      with fx False ensureLocalApp_start_streamed [of E host configKey inst ?s3]
      show ?thesis by simp
    qed
  qed
qed

text \<open>From \<open>state_installed\<close>, with the tag \<^verbatim>\<open>v1\<close> on both sides: nothing is streamed, and
  the local app is started from the recorded installation.\<close>

theorem ensureLocalApp_no_redownload_witness:
  "streamed (effects (snd (ensureLocalApp env0 ''https://gitpod.io'' ''config/gitpod.io''
      ''installation/gitpod.io'' state_installed))) = [] \<and>
   fst (ensureLocalApp env0 ''https://gitpod.io'' ''config/gitpod.io''
      ''installation/gitpod.io'' state_installed) = Inr config0"
proof -
  let ?d = "ensureLocalApp_download env0 ''https://gitpod.io'' state_installed"
  let ?r = "\<lparr>resp_ok = True, resp_status = 200, resp_statusText = ''OK'',
             resp_etag = Some ''v1'',
             resp_url = ''https://gitpod.io/static/bin/gitpod-local-companion-linux''\<rparr>"
  have g: "globalState (snd ?d) = globalState state_installed"
    by (simp add: ensureLocalApp_download_state env0_def)
  have r: "fetch_result env0 (tick state_installed) (downloadUri env0 ''https://gitpod.io'')
             = Inr ?r"
    by (simp add: downloadUri_def env0_def)
  have i: "as_installation (memento_get (globalState (snd ?d)) ''installation/gitpod.io'')
             = Some installation0"
    by (simp only: g) (simp add: state_installed_def state0_def memento_get_def)
  have t: "resp_etag ?r = etag installation0" by (simp add: installation0_def)
  have a: "access env0 (tick (snd ?d)) (path installation0) = None" by (simp add: env0_def)
  note w = ensureLocalApp_no_redownload [OF r refl i t a, of "''config/gitpod.io''"]
  have c: "as_config (memento_get (globalState (snd ?d)) ''config/gitpod.io'') = None"
    by (simp only: g) (simp add: state_installed_def state0_def memento_get_def)
  have n: "\<not> cancelled (await env0 0 (perform (Access (path installation0)) (snd ?d)))"
    by (simp add: ensureLocalApp_download_state await_def perform_def appendLine_def Let_def
        state_installed_def state0_def)
  from w c n have "ensureLocalApp env0 ''https://gitpod.io'' ''config/gitpod.io''
      ''installation/gitpod.io'' state_installed
    = ensureLocalApp_start env0 ''https://gitpod.io'' ''config/gitpod.io'' installation0
        (await env0 0 (perform (Access (path installation0)) (snd ?d)))"
    by blast
  then have "fst (ensureLocalApp env0 ''https://gitpod.io'' ''config/gitpod.io''
      ''installation/gitpod.io'' state_installed) = Inr config0"
    by (simp add: ensureLocalApp_download_state ensureLocalApp_start_def startLocalApp_def
        startLocalApp_try_def await_def perform_def appendLine_def update_def Let_def
        throwIfCancelled_def state_installed_def state0_def env0_def installation0_def
        config0_def)
  moreover from w have "streamed (effects (snd (ensureLocalApp env0 ''https://gitpod.io''
      ''config/gitpod.io'' ''installation/gitpod.io'' state_installed))) = []"
    by (simp add: state_installed_def state0_def)
  ultimately show ?thesis by blast
qed

subsection \<open>An outdated installation\<close>



end
